theory Spec2Isabelle
  imports Complex_Main
begin

section \<open>Errors, events and the execution monad\<close>

text \<open>
  The exception classes the sources raise themselves, the Python built-in errors that
  array indexing, label lookup and series construction raise, and \<open>OtherError\<close> for
  anything else a collaborator may raise.
\<close>

datatype error =
    DeepchecksNotSupportedError string
  | DeepchecksProcessError string
  | DeepchecksValueError string
  | IndexError string
  | KeyError string
  | ValueError string
  | OtherError string

text \<open>
  Every call that leaves \<open>run_logic\<close> is recorded as an event, in call order.
\<close>

datatype event =
    EvRaiseIfTokenClassificationTask
  | EvRaiseIfMultiLabelTask
  | EvGetDataByKind
  | EvSample
  | EvGetRelevantDataTable
  | EvTargetEncode
  | EvModelPredict
  | EvModelPredictProba
  | EvNegCrossEntropy
  | EvDummyModel
  | EvGetSingleScorer
  | EvScorer
  | EvWeakSegmentsSearch
  | EvCreateHeatmapDisplay
  | EvGenerateCheckResultValue
  | EvNormalizeHashSamples

text \<open>
  The process-global random state (numpy's) is the ambient state every callee can read
  and advance. A collaborator call takes it and returns its outcome with the new one.
  A computation of the check threads the event trace and the ambient state.
\<close>

type_synonym rng = nat

type_synonym 'a call = "rng \<Rightarrow> (error + 'a) \<times> rng"

type_synonym 'a exec = "event list \<times> rng \<Rightarrow> (error + 'a) \<times> (event list \<times> rng)"

definition return_exec :: "'a \<Rightarrow> 'a exec" where
  "return_exec x = (\<lambda>s. (Inr x, s))"

definition raise_exec :: "error \<Rightarrow> 'a exec" where
  "raise_exec e = (\<lambda>s. (Inl e, s))"

definition bind_exec :: "'a exec \<Rightarrow> ('a \<Rightarrow> 'b exec) \<Rightarrow> 'b exec" where
  "bind_exec m k = (\<lambda>s. case m s of (Inl e, s') \<Rightarrow> (Inl e, s') | (Inr x, s') \<Rightarrow> k x s')"

definition call_ev :: "event \<Rightarrow> 'a call \<Rightarrow> 'a exec" where
  "call_ev ev f = (\<lambda>(tr, g). case f g of (r, g') \<Rightarrow> (r, (tr @ [ev], g')))"

definition lift_result :: "error + 'a \<Rightarrow> 'a exec" where
  "lift_result r = (case r of Inl e \<Rightarrow> raise_exec e | Inr x \<Rightarrow> return_exec x)"

section \<open>Data carried through the checks\<close>

text \<open>A pandas index label: an integer or a string.\<close>

datatype label = LInt int | LStr string

datatype cell = CNum rat | CStr string | CNone

record dataframe =
  df_index :: "label list"
  df_columns :: "string list"
  df_rows :: "cell list list"

text \<open>
  The task type enum is declared outside the files at hand; the sources name the members
  \<open>TEXT_CLASSIFICATION\<close> and \<open>TOKEN_CLASSIFICATION\<close> and have an else branch for any
  other member, which \<open>OTHER_TASK\<close> stands for.
\<close>

datatype task_type = TEXT_CLASSIFICATION | TOKEN_CLASSIFICATION | OTHER_TASK string

datatype dataset_kind = TRAIN | TEST

datatype label_value = Single cell | Many "cell list"

text \<open>
  A per-sample score array as the check accepts it (\<open>Union[np.ndarray, pd.Series, None]\<close>):
  a numpy array, or a pandas Series, which is its index labels with its values.
\<close>

datatype 'f score_array = NdArray "'f list" | Series "(label \<times> 'f) list"

definition array_values :: "'f score_array \<Rightarrow> 'f list" where
  "array_values a = (case a of NdArray xs \<Rightarrow> xs | Series s \<Rightarrow> map snd s)"

record text_data =
  td_text :: "string list"
  td_label :: "label_value list"
  td_task_type :: task_type
  td_is_multi_label :: bool
  td_original_text_indexes :: "label list"
  td_metadata :: dataframe
  td_properties :: dataframe

text \<open>The tabular dataset the target encoding returns.\<close>

record encoded_dataset =
  ed_data :: dataframe
  ed_label_col :: "cell list"
  ed_features :: "string list"

text \<open>
  A model as the check sees it: \<open>predict\<close>, and \<open>predict_proba\<close> when the object has
  that attribute (\<open>hasattr\<close>).
\<close>

record 'f nlp_model =
  predict :: "text_data \<Rightarrow> cell list call"
  predict_proba :: "(text_data \<Rightarrow> 'f list list call) option"

type_synonym ('f, 'dm) scorer = "'dm \<Rightarrow> encoded_dataset \<Rightarrow> 'f call"

text \<open>
  The context object: the methods and properties \<open>run_logic\<close> uses. The property
  \<open>model\<close> may raise when it is read.
\<close>

record ('f, 'dm) nlp_context =
  raise_if_token_classification_task :: "unit call"
  raise_if_multi_label_task :: "unit call"
  get_data_by_kind :: "dataset_kind \<Rightarrow> text_data call"
  random_state :: int
  model :: "error + 'f nlp_model"
  task_type :: task_type
  model_classes :: "cell list"
  get_single_scorer :: "(string \<times> string) list option \<Rightarrow> ('f, 'dm) scorer call"
  with_display :: bool

section \<open>The weak-segments check\<close>

record 'f weak_segments_check =
  segment_by :: string
  columns :: "string list option"
  ignore_columns :: "string list option"
  n_top_features :: "int option"
  segment_minimum_size_ratio :: rat
  n_samples :: int
  n_to_show :: int
  score_per_sample :: "'f score_array option"
  alternative_scorer :: "(string \<times> string) list option"
  categorical_aggregation_threshold :: rat

text \<open>
  \<open>WeakSegmentsAbstractText.__init__\<close>: the fields are stored as given, but an empty
  scorer dictionary is stored as None.
\<close>

definition init_check ::
  "string \<Rightarrow> string list option \<Rightarrow> string list option \<Rightarrow> int option \<Rightarrow> rat \<Rightarrow>
   (string \<times> string) list option \<Rightarrow> 'f score_array option \<Rightarrow> int \<Rightarrow> rat \<Rightarrow> int \<Rightarrow>
   'f weak_segments_check" where
  "init_check seg_by cols ign n_top ratio alt sps n thr n_show =
     \<lparr> segment_by = seg_by, columns = cols, ignore_columns = ign, n_top_features = n_top,
       segment_minimum_size_ratio = ratio, n_samples = n, n_to_show = n_show,
       score_per_sample = sps,
       alternative_scorer = (case alt of None \<Rightarrow> None | Some [] \<Rightarrow> None | Some d \<Rightarrow> Some d),
       categorical_aggregation_threshold = thr \<rparr>"

text \<open>
  What \<open>run_logic\<close> calls outside itself: the dataset's \<open>sample\<close>, the functions of
  other modules, the methods inherited from the abstract weak-segment class (they take
  the check as \<open>self\<close>), and the numeric library (the \<open>mean\<close> method of the score
  array, \<open>round\<close>) and the formatting of a task type in an f-string.
\<close>

record ('f, 'dm, 'seg, 'disp, 'v) collaborators =
  sample :: "text_data \<Rightarrow> int \<Rightarrow> int option \<Rightarrow> text_data call"
  get_relevant_data_table ::
    "text_data \<Rightarrow> string \<Rightarrow> string list option \<Rightarrow> string list option \<Rightarrow> int option \<Rightarrow>
     (dataframe \<times> string list) call"
  target_encode_categorical_features_fill_na ::
    "'f weak_segments_check \<Rightarrow> dataframe \<Rightarrow> label_value list \<Rightarrow> string list \<Rightarrow> bool \<Rightarrow>
     encoded_dataset call"
  calculate_neg_cross_entropy_per_sample ::
    "label_value list \<Rightarrow> 'f list list \<Rightarrow> cell list \<Rightarrow> 'f score_array call"
  DummyModel :: "encoded_dataset \<Rightarrow> cell list \<Rightarrow> 'f list list \<Rightarrow> bool \<Rightarrow> 'dm call"
  weak_segments_search ::
    "'f weak_segments_check \<Rightarrow> dataframe \<Rightarrow> 'f score_array \<Rightarrow> cell list \<Rightarrow> string list \<Rightarrow>
     'dm option \<Rightarrow> ('f, 'dm) scorer option \<Rightarrow> 'seg list call"
  create_heatmap_display ::
    "'f weak_segments_check \<Rightarrow> dataframe \<Rightarrow> 'seg list \<Rightarrow> 'f score_array \<Rightarrow> 'f \<Rightarrow>
     cell list \<Rightarrow>
     'dm option \<Rightarrow> ('f, 'dm) scorer option \<Rightarrow> 'disp list call"
  generate_check_result_value ::
    "'f weak_segments_check \<Rightarrow> 'seg list \<Rightarrow> string list \<Rightarrow> 'f \<Rightarrow> 'v call"
  array_mean :: "'f score_array \<Rightarrow> 'f"
  py_round :: "'f \<Rightarrow> nat \<Rightarrow> 'f"
  str_task_type :: "task_type \<Rightarrow> string"

record ('v, 'disp) check_result =
  cr_value :: 'v
  cr_display_msg :: string
  cr_display_map :: "'disp list"

text \<open>
  \<open>score_per_sample[list(features.index)]\<close> on a numpy array: integer-array indexing by
  position, a negative position counting from the end, IndexError out of range or on a
  label that is not an integer.
\<close>

definition np_item :: "'a list \<Rightarrow> label \<Rightarrow> error + 'a" where
  "np_item arr l =
     (case l of
        LStr s \<Rightarrow> Inl (IndexError ''only integers are valid indices'')
      | LInt i \<Rightarrow>
          (let n = int (length arr); j = (if i < 0 then n + i else i)
           in if 0 \<le> j \<and> j < n then Inr (arr ! nat j)
              else Inl (IndexError ''index out of bounds'')))"

fun np_getitem :: "'a list \<Rightarrow> label list \<Rightarrow> error + 'a list" where
  "np_getitem arr [] = Inr []"
| "np_getitem arr (l # ls) =
     (case np_item arr l of
        Inl e \<Rightarrow> Inl e
      | Inr x \<Rightarrow> (case np_getitem arr ls of Inl e \<Rightarrow> Inl e | Inr xs \<Rightarrow> Inr (x # xs)))"

text \<open>
  The same expression on a pandas Series is a lookup by label (\<open>loc\<close>): for each key in
  turn the rows of the Series that carry this label, KeyError when a key is not a label
  of the Series, and no counting from the end.
\<close>

definition loc_item :: "(label \<times> 'f) list \<Rightarrow> label \<Rightarrow> error + (label \<times> 'f) list" where
  "loc_item s k =
     (case filter (\<lambda>row. fst row = k) s of
        [] \<Rightarrow> Inl (KeyError ''not in index'')
      | r # rs \<Rightarrow> Inr (r # rs))"

fun loc_getitem :: "(label \<times> 'f) list \<Rightarrow> label list \<Rightarrow> error + (label \<times> 'f) list" where
  "loc_getitem s [] = Inr []"
| "loc_getitem s (k # ks) =
     (case loc_item s k of
        Inl e \<Rightarrow> Inl e
      | Inr rows \<Rightarrow>
          (case loc_getitem s ks of Inl e \<Rightarrow> Inl e | Inr rest \<Rightarrow> Inr (rows @ rest)))"

text \<open>
  The rows of a Series by position (\<open>iloc\<close>): as for a numpy array, with IndexError out
  of range.
\<close>

definition iloc_getitem :: "(label \<times> 'f) list \<Rightarrow> label list \<Rightarrow> error + (label \<times> 'f) list" where
  "iloc_getitem s keys =
     (case np_getitem s keys of
        Inl e \<Rightarrow> Inl (IndexError ''positional indexers are out-of-bounds'')
      | Inr rows \<Rightarrow> Inr rows)"

definition is_int_label :: "label \<Rightarrow> bool" where
  "is_int_label l = (case l of LInt i \<Rightarrow> True | LStr s \<Rightarrow> False)"

text \<open>
  \<open>Series.__getitem__\<close> with a list: the lookup is by label, except that a non-empty
  list of integers on a Series none of whose labels is an integer is taken by position
  (the fallback of pandas before version 3).
\<close>

definition series_getitem :: "(label \<times> 'f) list \<Rightarrow> label list \<Rightarrow> error + (label \<times> 'f) list" where
  "series_getitem s keys =
     (if keys \<noteq> [] \<and> list_all is_int_label keys \<and> \<not> list_ex is_int_label (map fst s)
      then iloc_getitem s keys
      else loc_getitem s keys)"

text \<open>\<open>score_per_sample[list(features.index)]\<close>, on either kind of array.\<close>

definition getitem :: "'f score_array \<Rightarrow> label list \<Rightarrow> error + 'f score_array" where
  "getitem a keys =
     (case a of
        NdArray xs \<Rightarrow>
          (case np_getitem xs keys of Inl e \<Rightarrow> Inl e | Inr ys \<Rightarrow> Inr (NdArray ys))
      | Series s \<Rightarrow>
          (case series_getitem s keys of Inl e \<Rightarrow> Inl e | Inr rows \<Rightarrow> Inr (Series rows)))"

definition proba_not_supplied_msg :: string where
  "proba_not_supplied_msg =
     ''Predicted probabilities not supplied. The weak segment checks relies'' @
     '' on cross entropy error that requires predicted probabilities, '' @
     ''rather than only predicted classes.''"

definition task_not_supported_msg :: "string \<Rightarrow> string" where
  "task_not_supported_msg t =
     ''Weak segments performance check is not supported for '' @ t @ ''.''"

definition no_segments_msg :: "string \<Rightarrow> string" where
  "no_segments_msg seg_by =
     ''WeakSegmentsPerformance was unable to train an error model to find weak '' @
     ''segments. Try increasing n_samples or supply more '' @ seg_by @ ''.''"

definition display_msg :: "string \<Rightarrow> string" where
  "display_msg seg_by =
     ''Showcasing intersections of '' @ seg_by @
     '' with weakest detected segments.<br> The full '' @
     ''list of weak segments can be observed in the check result value. ''"

text \<open>
  Lines 53 to 65 of \<open>run_logic\<close>: the task guards, the sampled data, the table of the
  columns to segment by and its encoding.
\<close>

definition prepare ::
  "('f, 'dm, 'seg, 'disp, 'v) collaborators \<Rightarrow> 'f weak_segments_check \<Rightarrow> ('f, 'dm) nlp_context \<Rightarrow>
   dataset_kind \<Rightarrow> (text_data \<times> dataframe \<times> string list \<times> encoded_dataset) exec" where
  "prepare env self ctx kind =
     bind_exec (call_ev EvRaiseIfTokenClassificationTask (raise_if_token_classification_task ctx))
       (\<lambda>_.
     bind_exec (call_ev EvRaiseIfMultiLabelTask (raise_if_multi_label_task ctx)) (\<lambda>_.
     bind_exec (call_ev EvGetDataByKind (get_data_by_kind ctx kind)) (\<lambda>text_data0.
     bind_exec (call_ev EvSample
                  (sample env text_data0 (n_samples self) (Some (random_state ctx))))
       (\<lambda>text_data.
     bind_exec (call_ev EvGetRelevantDataTable
                  (get_relevant_data_table env text_data (segment_by self) (columns self)
                     (ignore_columns self) (n_top_features self)))
       (\<lambda>(features, cat_features).
     bind_exec (call_ev EvTargetEncode
                  (target_encode_categorical_features_fill_na env self features
                     (td_label text_data) cat_features True))
       (\<lambda>encoded.
     return_exec (text_data, features, cat_features, encoded)))))))"

text \<open>
  Lines 66 to 87: the per-sample scores, the scorer, the dummy model and the average
  score, on the provided-scores path and on the model path.
\<close>

definition scoring ::
  "('f, 'dm, 'seg, 'disp, 'v) collaborators \<Rightarrow> 'f weak_segments_check \<Rightarrow> ('f, 'dm) nlp_context \<Rightarrow>
   text_data \<Rightarrow> dataframe \<Rightarrow> encoded_dataset \<Rightarrow>
   ('f score_array \<times> ('f, 'dm) scorer option \<times> 'dm option \<times> 'f) exec" where
  "scoring env self ctx text_data features encoded =
     (case score_per_sample self of
        Some arr \<Rightarrow>
          bind_exec (lift_result (getitem arr (df_index features))) (\<lambda>sps.
          return_exec (sps, None, None, py_round env (array_mean env sps) 3))
      | None \<Rightarrow>
          bind_exec (lift_result (model ctx)) (\<lambda>m.
          bind_exec (call_ev EvModelPredict (predict m text_data)) (\<lambda>predictions.
          if task_type ctx = TEXT_CLASSIFICATION then
            (case predict_proba m of
               None \<Rightarrow> raise_exec (DeepchecksNotSupportedError proba_not_supplied_msg)
             | Some pp \<Rightarrow>
                 bind_exec (call_ev EvModelPredictProba (pp text_data)) (\<lambda>y_proba.
                 bind_exec (call_ev EvNegCrossEntropy
                              (calculate_neg_cross_entropy_per_sample env (td_label text_data)
                                 y_proba (model_classes ctx)))
                   (\<lambda>sps.
                 bind_exec (call_ev EvDummyModel (DummyModel env encoded predictions y_proba False))
                   (\<lambda>dummy_model.
                 bind_exec (call_ev EvGetSingleScorer
                              (get_single_scorer ctx (alternative_scorer self)))
                   (\<lambda>scorer.
                 bind_exec (call_ev EvScorer (scorer dummy_model encoded)) (\<lambda>sc.
                 return_exec (sps, Some scorer, Some dummy_model, py_round env sc 3)))))))
          else
            raise_exec (DeepchecksNotSupportedError
                          (task_not_supported_msg (str_task_type env (task_type ctx)))))))"

text \<open>
  Lines 90 to 111: the search, the processing failure on an empty list, the display and
  the result.
\<close>

definition search_and_report ::
  "('f, 'dm, 'seg, 'disp, 'v) collaborators \<Rightarrow> 'f weak_segments_check \<Rightarrow> ('f, 'dm) nlp_context \<Rightarrow>
   string list \<Rightarrow> encoded_dataset \<Rightarrow>
   'f score_array \<Rightarrow> ('f, 'dm) scorer option \<Rightarrow> 'dm option \<Rightarrow> 'f \<Rightarrow>
   ('v, 'disp) check_result exec" where
  "search_and_report env self ctx cat_features encoded sps scorer dummy_model avg_score =
     bind_exec (call_ev EvWeakSegmentsSearch
                  (weak_segments_search env self (ed_data encoded) sps (ed_label_col encoded)
                     (ed_features encoded) dummy_model scorer))
       (\<lambda>weak_segments.
     if length weak_segments = 0 then
       raise_exec (DeepchecksProcessError (no_segments_msg (segment_by self)))
     else
       bind_exec (if with_display ctx
                  then call_ev EvCreateHeatmapDisplay
                         (create_heatmap_display env self (ed_data encoded) weak_segments sps
                            avg_score (ed_label_col encoded) dummy_model scorer)
                  else return_exec [])
         (\<lambda>display.
       bind_exec (call_ev EvGenerateCheckResultValue
                    (generate_check_result_value env self weak_segments cat_features avg_score))
         (\<lambda>check_result_value.
       return_exec \<lparr> cr_value = check_result_value,
                     cr_display_msg = display_msg (segment_by self),
                     cr_display_map = display \<rparr>)))"

text \<open>\<open>WeakSegmentsAbstractText.run_logic\<close>, the three parts in sequence.\<close>

definition run_logic ::
  "('f, 'dm, 'seg, 'disp, 'v) collaborators \<Rightarrow> 'f weak_segments_check \<Rightarrow> ('f, 'dm) nlp_context \<Rightarrow>
   dataset_kind \<Rightarrow> ('v, 'disp) check_result exec" where
  "run_logic env self ctx kind =
     bind_exec (prepare env self ctx kind) (\<lambda>(text_data, features, cat_features, encoded).
     bind_exec (scoring env self ctx text_data features encoded)
       (\<lambda>(sps, scorer, dummy_model, avg_score).
     search_and_report env self ctx cat_features encoded sps scorer dummy_model avg_score))"

section \<open>Events a computation emits, and independence of the ambient random state\<close>

text \<open>
  \<open>emits m E\<close>: whatever the start, \<open>m\<close> only appends to the trace, and only events
  of \<open>E\<close>.
\<close>

definition emits :: "'a exec \<Rightarrow> event set \<Rightarrow> bool" where
  "emits m E \<longleftrightarrow> (\<forall>tr g. \<exists>new. fst (snd (m (tr, g))) = tr @ new \<and> set new \<subseteq> E)"

text \<open>
  A collaborator call is seeded when its outcome is the same from every ambient random
  state; a computation is ambient-free when its outcome and its trace are.
\<close>

definition seeded :: "'a call \<Rightarrow> bool" where
  "seeded f \<longleftrightarrow> (\<forall>g1 g2. fst (f g1) = fst (f g2))"

definition ambient_free :: "'a exec \<Rightarrow> bool" where
  "ambient_free m \<longleftrightarrow>
     (\<forall>tr g1 g2. fst (m (tr, g1)) = fst (m (tr, g2)) \<and>
                  fst (snd (m (tr, g1))) = fst (snd (m (tr, g2))))"

text \<open>
  Modelled from the spec: the collaborators of \<open>run_logic\<close> (sampling, column selection,
  encoding, model and scorer calls, search, display and result formatting) are not in the
  files at hand. Section 5 of the spec says of them that randomness is fully seeded:
  sampling of rows, sampling of columns and ensemble training derive from one
  caller-supplied seed. Here: each collaborator call is seeded, and \<open>sample\<close> is so
  whenever it is given a seed (\<open>random_state\<close> not None).
\<close>

definition seeded_model :: "'f nlp_model \<Rightarrow> bool" where
  "seeded_model m \<longleftrightarrow>
     (\<forall>td. seeded (predict m td)) \<and>
     (\<forall>pp td. predict_proba m = Some pp \<longrightarrow> seeded (pp td))"

definition seeded_context :: "('f, 'dm) nlp_context \<Rightarrow> bool" where
  "seeded_context ctx \<longleftrightarrow>
     seeded (raise_if_token_classification_task ctx) \<and>
     seeded (raise_if_multi_label_task ctx) \<and>
     (\<forall>k. seeded (get_data_by_kind ctx k)) \<and>
     (\<forall>m. model ctx = Inr m \<longrightarrow> seeded_model m) \<and>
     (\<forall>a. seeded (get_single_scorer ctx a)) \<and>
     (\<forall>a g sc dm e. fst (get_single_scorer ctx a g) = Inr sc \<longrightarrow> seeded (sc dm e))"

definition seeded_collaborators :: "('f, 'dm, 'seg, 'disp, 'v) collaborators \<Rightarrow> bool" where
  "seeded_collaborators env \<longleftrightarrow>
     (\<forall>td n s. seeded (sample env td n (Some s))) \<and>
     (\<forall>td sb c i n. seeded (get_relevant_data_table env td sb c i n)) \<and>
     (\<forall>self f l c b. seeded (target_encode_categorical_features_fill_na env self f l c b)) \<and>
     (\<forall>l p c. seeded (calculate_neg_cross_entropy_per_sample env l p c)) \<and>
     (\<forall>e p q b. seeded (DummyModel env e p q b)) \<and>
     (\<forall>self d s l f dm sc. seeded (weak_segments_search env self d s l f dm sc)) \<and>
     (\<forall>self d w s a l dm sc. seeded (create_heatmap_display env self d w s a l dm sc)) \<and>
     (\<forall>self w c a. seeded (generate_check_result_value env self w c a))"

section \<open>The segment search and the result formatter, from the spec\<close>

text \<open>
  A segment: its defining predicates (column name and a description of the range or
  category subset), the sample-index subset and the mean score of the subset. Its size is
  the size of the index subset.
\<close>

record segment =
  seg_predicates :: "(string \<times> string) list"
  seg_indices :: "nat list"
  seg_score :: rat

definition seg_size :: "segment \<Rightarrow> nat" where
  "seg_size s = length (seg_indices s)"

definition arith_mean :: "rat list \<Rightarrow> rat" where
  "arith_mean xs = sum_list xs / of_nat (length xs)"

definition meets_minimum_size :: "rat \<Rightarrow> nat \<Rightarrow> segment \<Rightarrow> bool" where
  "meets_minimum_size ratio N s \<longleftrightarrow> ratio * of_nat N \<le> of_nat (seg_size s)"

definition weakness :: "rat \<Rightarrow> segment \<Rightarrow> rat" where
  "weakness avg s = avg - seg_score s"

definition ranks_before :: "rat \<Rightarrow> segment \<Rightarrow> segment \<Rightarrow> bool" where
  "ranks_before avg a b \<longleftrightarrow>
     weakness avg a > weakness avg b \<or>
     (weakness avg a = weakness avg b \<and> seg_size a \<ge> seg_size b)"

fun insert_ranked :: "rat \<Rightarrow> segment \<Rightarrow> segment list \<Rightarrow> segment list" where
  "insert_ranked avg s [] = [s]"
| "insert_ranked avg s (t # ts) =
     (if ranks_before avg s t then s # t # ts else t # insert_ranked avg s ts)"

fun rank_segments :: "rat \<Rightarrow> segment list \<Rightarrow> segment list" where
  "rank_segments avg [] = []"
| "rank_segments avg (s # ss) = insert_ranked avg s (rank_segments avg ss)"

fun prune_similar :: "(segment \<Rightarrow> segment \<Rightarrow> bool) \<Rightarrow> segment list \<Rightarrow> segment list" where
  "prune_similar similar [] = []"
| "prune_similar similar (s # ss) =
     s # prune_similar similar (filter (\<lambda>t. \<not> similar s t) ss)"

text \<open>
  Modelled from the spec: \<open>_weak_segments_search\<close> is inherited from the abstract
  weak-segment class, which is not in the files at hand. Section 4.4 of the spec: each
  leaf of each member of a small ensemble of shallow decision models is a candidate
  segment (the training is the parameter \<open>leaves\<close>, which gives each leaf's predicates
  and sample indices); a leaf whose sample count does not satisfy the minimum size ratio
  is discarded, never reported; a segment's score is the mean per-sample score over its
  indices; weakness is the global average score minus the segment score; the output is
  in descending order of weakness, ties broken by larger size; of two segments whose
  index sets overlap above a similarity threshold (the parameter \<open>similar\<close>) the
  weaker or larger one is kept.
\<close>

definition spec_weak_segments_search ::
  "(dataframe \<Rightarrow> rat list \<Rightarrow> string list \<Rightarrow> ((string \<times> string) list \<times> nat list) list) \<Rightarrow>
   (segment \<Rightarrow> segment \<Rightarrow> bool) \<Rightarrow>
   rat \<Rightarrow> dataframe \<Rightarrow> rat list \<Rightarrow> string list \<Rightarrow> segment list" where
  "spec_weak_segments_search leaves similar ratio table scores feature_rank =
     (let N = length (df_index table);
          candidates =
            map (\<lambda>(preds, idx).
                   \<lparr> seg_predicates = preds, seg_indices = idx,
                     seg_score = arith_mean (map (\<lambda>i. scores ! i) idx) \<rparr>)
                (leaves table scores feature_rank);
          valid = filter (meets_minimum_size ratio N) candidates
      in prune_similar similar (rank_segments (arith_mean scores) valid))"

text \<open>
  Modelled from the spec: \<open>_generate_check_result_value\<close> is inherited from the same
  class. Section 4.5 of the spec: the structured value is the ordered sequence of segment
  records, each with its predicates, size and score, plus the global average score (the
  mapping of categorical encodings back to category names is the parameter \<open>decode\<close>).
\<close>

record result_value =
  rv_weak_segments :: "segment list"
  rv_avg_score :: rat

definition spec_generate_check_result_value ::
  "(string list \<Rightarrow> (string \<times> string) list \<Rightarrow> (string \<times> string) list) \<Rightarrow>
   segment list \<Rightarrow> string list \<Rightarrow> rat \<Rightarrow> result_value" where
  "spec_generate_check_result_value decode weak_segments cat_features avg_score =
     \<lparr> rv_weak_segments =
         map (\<lambda>s. s\<lparr>seg_predicates := decode cat_features (seg_predicates s)\<rparr>) weak_segments,
       rv_avg_score = avg_score \<rparr>"

text \<open>The collaborators with the search and the formatter of the spec in place.\<close>

definition with_spec_search ::
  "(dataframe \<Rightarrow> rat list \<Rightarrow> string list \<Rightarrow> ((string \<times> string) list \<times> nat list) list) \<Rightarrow>
   (segment \<Rightarrow> segment \<Rightarrow> bool) \<Rightarrow>
   (string list \<Rightarrow> (string \<times> string) list \<Rightarrow> (string \<times> string) list) \<Rightarrow>
   (rat, 'dm, segment, 'disp, result_value) collaborators \<Rightarrow>
   (rat, 'dm, segment, 'disp, result_value) collaborators" where
  "with_spec_search leaves similar decode env =
     env\<lparr> weak_segments_search :=
            (\<lambda>self table scores label_col feature_rank dm sc g.
               (Inr (spec_weak_segments_search leaves similar (segment_minimum_size_ratio self)
                       table (array_values scores) feature_rank), g)),
          generate_check_result_value :=
            (\<lambda>self weak_segments cat_features avg_score g.
               (Inr (spec_generate_check_result_value decode weak_segments cat_features
                       avg_score), g)) \<rparr>"

section \<open>Python's formatting of an index label\<close>

definition digit_char :: "nat \<Rightarrow> char" where
  "digit_char d = ''0123456789'' ! d"

function string_of_nat :: "nat \<Rightarrow> string" where
  "string_of_nat n =
     (if n < 10 then [digit_char n] else string_of_nat (n div 10) @ [digit_char (n mod 10)])"
  by pat_completeness auto
termination
  by (relation "measure id") auto

declare string_of_nat.simps [simp del]

definition string_of_int :: "int \<Rightarrow> string" where
  "string_of_int i =
     (if i < 0 then CHR ''-'' # string_of_nat (nat (- i)) else string_of_nat (nat i))"


section \<open>The conflicting-labels check\<close>

record conflicting_labels_check =
  cl_ignore_case :: bool
  cl_remove_punctuation :: bool
  cl_normalize_unicode :: bool
  cl_remove_stopwords :: bool
  cl_ignore_whitespace :: bool
  cl_n_to_show :: int
  cl_n_samples :: int
  cl_random_state :: int
  cl_max_text_length_for_display :: int

record text_normalization_kwargs =
  kw_ignore_case :: bool
  kw_ignore_whitespace :: bool
  kw_normalize_uni :: bool
  kw_remove_punct :: bool
  kw_remove_stops :: bool

definition text_normalization_kwargs_of ::
  "conflicting_labels_check \<Rightarrow> text_normalization_kwargs" where
  "text_normalization_kwargs_of self =
     \<lparr> kw_ignore_case = cl_ignore_case self,
       kw_ignore_whitespace = cl_ignore_whitespace self,
       kw_normalize_uni = cl_normalize_unicode self,
       kw_remove_punct = cl_remove_punctuation self,
       kw_remove_stops = cl_remove_stopwords self \<rparr>"

text \<open>
  What the check calls outside itself: the dataset's \<open>sample\<close>, the text normalisation
  and hashing, the string utilities of the display and the formatting of a task type.
\<close>

record cl_collaborators =
  cl_sample :: "text_data \<Rightarrow> int \<Rightarrow> int option \<Rightarrow> text_data call"
  normalize_samples :: "string list \<Rightarrow> text_normalization_kwargs \<Rightarrow> string list call"
  hash_samples :: "string list \<Rightarrow> int list call"
  to_ordional_enumeration :: "int list \<Rightarrow> int \<Rightarrow> int"
  format_list :: "label_value list \<Rightarrow> string"
  format_id_list :: "label list \<Rightarrow> nat \<Rightarrow> string"
  truncate_string :: "string \<Rightarrow> int \<Rightarrow> string"
  cl_str_task_type :: "task_type \<Rightarrow> string"

text \<open>One row of the data frame of the check: hash, sample id, label and text.\<close>

record cl_row =
  row_hash :: int
  row_sample_id :: label
  row_label :: label_value
  row_text :: string

text \<open>
  \<open>tuple(it)\<close> of a label: a sequence becomes the tuple of its items, a string the tuple
  of its characters, anything else is a TypeError.
\<close>

definition py_tuple :: "label_value \<Rightarrow> error + label_value" where
  "py_tuple l =
     (case l of
        Many xs \<Rightarrow> Inr (Many xs)
      | Single (CStr s) \<Rightarrow> Inr (Many (map (\<lambda>c. CStr [c]) s))
      | Single _ \<Rightarrow> Inl (OtherError ''TypeError''))"

fun py_tuples :: "label_value list \<Rightarrow> error + label_value list" where
  "py_tuples [] = Inr []"
| "py_tuples (l # ls) =
     (case py_tuple l of
        Inl e \<Rightarrow> Inl e
      | Inr t \<Rightarrow> (case py_tuples ls of Inl e \<Rightarrow> Inl e | Inr ts \<Rightarrow> Inr (t # ts)))"

text \<open>
  \<open>pd.DataFrame\<close> of the four columns: a ValueError when their lengths differ.
\<close>

definition make_rows ::
  "int list \<Rightarrow> label list \<Rightarrow> label_value list \<Rightarrow> string list \<Rightarrow> error + cl_row list" where
  "make_rows hashes ids labels texts =
     (if length hashes = length ids \<and> length ids = length labels \<and>
         length labels = length texts
      then Inr (map (\<lambda>(h, i, l, t).
                       \<lparr> row_hash = h, row_sample_id = i, row_label = l, row_text = t \<rparr>)
                  (zip hashes (zip ids (zip labels texts))))
      else Inl (ValueError ''All arrays must be of the same length''))"

definition labels_of_hash :: "cl_row list \<Rightarrow> int \<Rightarrow> label_value list" where
  "labels_of_hash df h = map row_label (filter (\<lambda>r. row_hash r = h) df)"

definition count_labels :: "label_value list \<Rightarrow> nat" where
  "count_labels x = length (remdups x)"

definition ambiguous_rows :: "cl_row list \<Rightarrow> cl_row list" where
  "ambiguous_rows df = filter (\<lambda>r. count_labels (labels_of_hash df (row_hash r)) > 1) df"

record cl_result_row =
  res_duplicate :: int
  res_sample_id :: label
  res_label :: label_value
  res_text :: string

record cl_result_value =
  percent_of_conflicting_samples :: rat
  conflicting_samples :: "cl_result_row list"

record cl_display_row =
  disp_observed_labels :: string
  disp_sample_ids :: string
  disp_text :: string

record cl_check_result =
  clr_value :: cl_result_value
  clr_display :: "(string \<times> string \<times> cl_display_row list) option"

text \<open>\<open>xs[0:n]\<close>, with a negative \<open>n\<close> counting from the end.\<close>

definition py_slice_to :: "int \<Rightarrow> 'a list \<Rightarrow> 'a list" where
  "py_slice_to n xs =
     (if n < 0 then take (nat (int (length xs) + n)) xs else take (nat n) xs)"

definition display_table ::
  "cl_collaborators \<Rightarrow> conflicting_labels_check \<Rightarrow> cl_row list \<Rightarrow> cl_display_row list" where
  "display_table env self ambiguous =
     (let truncated = map (\<lambda>r. r\<lparr>row_text :=
                                  truncate_string env (row_text r)
                                    (cl_max_text_length_for_display self)\<rparr>) ambiguous
      in map (\<lambda>h. let grp = filter (\<lambda>r. row_hash r = h) truncated
                   in \<lparr> disp_observed_labels = format_list env (map row_label grp),
                        disp_sample_ids = format_id_list env (map row_sample_id grp) 200,
                        disp_text = (case grp of [] \<Rightarrow> [] | r # _ \<Rightarrow> row_text r) \<rparr>)
             (sort (remdups (map row_hash truncated))))"

definition table_note :: "conflicting_labels_check \<Rightarrow> nat \<Rightarrow> string" where
  "table_note self n =
     (if cl_n_to_show self \<le> int n
      then ''Showing top '' @ string_of_int (cl_n_to_show self) @ '' of '' @ string_of_nat n
      else [])"

definition table_description :: string where
  "table_description =
     ''Each row in the table shows an example of a data sample '' @
     ''and the its observed conflicting labels as found in the dataset.''"

text \<open>
  \<open>ConflictingLabels.run_logic\<close>. The normalisation and the hashing of the samples are
  recorded as one event.
\<close>

definition cl_run_logic ::
  "cl_collaborators \<Rightarrow> conflicting_labels_check \<Rightarrow> ('f, 'dm) nlp_context \<Rightarrow> dataset_kind \<Rightarrow>
   cl_check_result exec" where
  "cl_run_logic env self ctx kind =
     bind_exec (call_ev EvGetDataByKind (get_data_by_kind ctx kind)) (\<lambda>data0.
     bind_exec (call_ev EvSample
                  (cl_sample env data0 (cl_n_samples self) (Some (cl_random_state self))))
       (\<lambda>dataset.
     let samples = td_text dataset; n_of_samples = length samples in
     if n_of_samples = 0 then raise_exec (DeepchecksValueError ''Dataset cannot be empty'')
     else
       bind_exec (call_ev EvNormalizeHashSamples
                    (\<lambda>g. case normalize_samples env (td_text dataset)
                                 (text_normalization_kwargs_of self) g of
                            (Inl e, g') \<Rightarrow> (Inl e, g')
                          | (Inr normalized, g') \<Rightarrow> hash_samples env normalized g'))
         (\<lambda>samples_hashes.
       bind_exec (if td_task_type dataset = TOKEN_CLASSIFICATION \<or> td_is_multi_label dataset
                  then lift_result (py_tuples (td_label dataset))
                  else if td_task_type dataset = TEXT_CLASSIFICATION
                  then return_exec (td_label dataset)
                  else raise_exec (DeepchecksValueError
                                     (''Unknow task type - '' @
                                      cl_str_task_type env (td_task_type dataset))))
         (\<lambda>labels.
       bind_exec (lift_result (make_rows samples_hashes (td_original_text_indexes dataset)
                                 labels (td_text dataset)))
         (\<lambda>df.
       let ambiguous_samples = ambiguous_rows df;
           num_of_ambiguous_samples = length ambiguous_samples;
           percent_of_ambiguous_samples =
             (of_nat num_of_ambiguous_samples :: rat) / of_nat n_of_samples;
           duplicates_enumeration =
             to_ordional_enumeration env (map row_hash ambiguous_samples);
           result_df =
             map (\<lambda>r. \<lparr> res_duplicate = duplicates_enumeration (row_hash r),
                         res_sample_id = row_sample_id r, res_label = row_label r,
                         res_text = row_text r \<rparr>) ambiguous_samples;
           result_value = \<lparr> percent_of_conflicting_samples = percent_of_ambiguous_samples,
                             conflicting_samples = result_df \<rparr>
       in if \<not> with_display ctx
          then return_exec \<lparr> clr_value = result_value, clr_display = None \<rparr>
          else
            (let table = display_table env self ambiguous_samples
             in return_exec
                  \<lparr> clr_value = result_value,
                    clr_display =
                      Some (table_description, table_note self (length table),
                            py_slice_to (cl_n_to_show self) table) \<rparr>))))))"

text \<open>
  Modelled from the spec: the collaborators of the conflicting-labels check are not in
  the files at hand; as for the weak-segments check, each call is seeded, and \<open>sample\<close>
  is so whenever it is given a seed.
\<close>

definition seeded_cl_collaborators :: "cl_collaborators \<Rightarrow> bool" where
  "seeded_cl_collaborators env \<longleftrightarrow>
     (\<forall>td n s. seeded (cl_sample env td n (Some s))) \<and>
     (\<forall>t k. seeded (normalize_samples env t k)) \<and>
     (\<forall>t. seeded (hash_samples env t))"

section \<open>The recommender context's dummy model\<close>

text \<open>
  A tabular dataset as \<open>_DummyModel.__init__\<close> reads it: its data frame. The property
  \<open>features_columns\<close> of the dataset class is a parameter of the constructor below.
\<close>

record tab_dataset =
  ds_data :: dataframe

type_synonym series = "(label \<times> cell) list"

record dummy_model =
  dm_predictions :: "series option"
  dm_feature_df_list :: "dataframe list"
  dm_validate_data_on_predict :: bool
  dm_has_predict :: bool







section \<open>Running a single-dataset check of the tabular package\<close>

text \<open>
  The tabular task type enum is declared outside the files at hand; the source names the
  member \<open>RECOMMENDETION\<close> only.
\<close>

datatype tabular_task_type = RECOMMENDETION | TABULAR_TASK string

datatype warning = DeprecationWarning string

datatype context_class = RecContext | TabularContext | CustomContext string

record ('ds, 'm, 'item, 'inter, 'fi, 'arr, 'cls) run_args =
  arg_dataset :: 'ds
  arg_model :: "'m option"
  arg_item_dataset :: "'item option"
  arg_interaction_dataset :: "'inter option"
  arg_feature_importance :: "'fi option"
  arg_feature_importance_force_permutation :: bool
  arg_feature_importance_timeout :: int
  arg_with_display :: bool
  arg_y_pred :: "'arr option"
  arg_y_proba :: "'arr option"
  arg_y_pred_train :: "'arr option"
  arg_y_pred_test :: "'arr option"
  arg_y_proba_train :: "'arr option"
  arg_y_proba_test :: "'arr option"
  arg_model_classes :: "'cls list option"

text \<open>The keyword arguments the two branches pass to the context class.\<close>

record ('ds, 'm, 'item, 'inter, 'fi, 'arr, 'cls) context_kwargs =
  kw_train :: 'ds
  kw_model :: "'m option option"
  kw_item_dataset :: "'item option option"
  kw_interaction_dataset :: "'inter option option"
  kw_feature_importance :: "'fi option"
  kw_feature_importance_force_permutation :: bool
  kw_feature_importance_timeout :: int
  kw_with_display :: bool
  kw_y_pred_train :: "'arr option"
  kw_y_proba_train :: "'arr option option"
  kw_model_classes :: "'cls list option option"

definition or_else :: "'a option \<Rightarrow> 'a option \<Rightarrow> 'a option" where
  "or_else a b = (case a of Some x \<Rightarrow> Some x | None \<Rightarrow> b)"

text \<open>
  Lines 83 to 106 of \<open>SingleDatasetCheck.run\<close>: the guards on the arguments and the
  warnings, in source order. The fourth test repeats the second one, as the source does.
  The result is the warnings issued and either the error raised or the values of
  \<open>y_pred_train\<close> and \<open>y_proba_train\<close> after line 106.
\<close>

definition validate_run_args ::
  "('ds \<Rightarrow> tabular_task_type) \<Rightarrow> ('ds, 'm, 'item, 'inter, 'fi, 'arr, 'cls) run_args \<Rightarrow>
   warning list \<times> (error + ('arr option \<times> 'arr option))" where
  "validate_run_args label_type a =
     (if label_type (arg_dataset a) \<noteq> RECOMMENDETION \<and> arg_item_dataset a \<noteq> None then
        ([], Inl (DeepchecksNotSupportedError
                    ''item_dataset is not supported for tabular datasets.''))
      else if label_type (arg_dataset a) = RECOMMENDETION \<and> arg_model_classes a \<noteq> None then
        ([], Inl (DeepchecksNotSupportedError
                    ''model_classes is not supported for recommendation datasets.''))
      else
        let w1 = (if arg_y_pred_train a \<noteq> None
                  then [DeprecationWarning
                          ''y_pred_train is deprecated, please use y_pred instead.'']
                  else [])
        in if arg_y_pred_train a \<noteq> None \<and> arg_y_pred a \<noteq> None then
             (w1, Inl (DeepchecksValueError
                         (''Cannot accept both y_pred_train and y_pred, please pass the data only'' @
                          '' to y_pred.'')))
           else
             let w2 = w1 @ (if arg_y_proba_train a \<noteq> None
                            then [DeprecationWarning
                                    ''y_proba_train is deprecated, please use y_proba instead.'']
                            else [])
             in if arg_y_pred_train a \<noteq> None \<and> arg_y_pred a \<noteq> None then
                  (w2, Inl (DeepchecksValueError
                              (''Cannot accept both y_proba_train and y_proba, please pass the data only'' @
                               '' to y_proba.'')))
                else
                  let w3 = w2 @ (if arg_y_pred_test a \<noteq> None
                                 then [DeprecationWarning
                                         ''y_pred_test is deprecated and ignored.'']
                                 else []);
                      w4 = w3 @ (if arg_y_proba_test a \<noteq> None
                                 then [DeprecationWarning
                                         ''y_proba_test is deprecated and ignored.'']
                                 else [])
                  in (w4, Inr (or_else (arg_y_pred_train a) (arg_y_pred a),
                               or_else (arg_y_proba_train a) (arg_y_proba a))))"

text \<open>
  \<open>SingleDatasetCheck.run\<close>. The check's \<open>context_type\<close> attribute is state of the check
  object; calling the context class, \<open>run_logic\<close> and \<open>finalize_check_result\<close> are
  parameters. A keyword a branch does not pass is None in the keyword record.
\<close>

definition single_dataset_run ::
  "('ds \<Rightarrow> tabular_task_type) \<Rightarrow>
   (context_class \<Rightarrow> ('ds, 'm, 'item, 'inter, 'fi, 'arr, 'cls) context_kwargs \<Rightarrow> error + 'ctx) \<Rightarrow>
   ('ctx \<Rightarrow> dataset_kind \<Rightarrow> error + 'r) \<Rightarrow>
   ('ctx \<Rightarrow> 'r \<Rightarrow> dataset_kind \<Rightarrow> error + unit) \<Rightarrow>
   context_class option \<Rightarrow> ('ds, 'm, 'item, 'inter, 'fi, 'arr, 'cls) run_args \<Rightarrow>
   warning list \<times> context_class option \<times> (error + 'r)" where
  "single_dataset_run label_type make_context run_logic_of finalize_check_result context_type a =
     (case validate_run_args label_type a of
        (ws, Inl e) \<Rightarrow> (ws, context_type, Inl e)
      | (ws, Inr (y_pred_train, y_proba_train)) \<Rightarrow>
          (let cls = (if label_type (arg_dataset a) = RECOMMENDETION then RecContext
                      else (case context_type of Some c \<Rightarrow> c | None \<Rightarrow> TabularContext));
               kwargs =
                 (if label_type (arg_dataset a) = RECOMMENDETION then
                    \<lparr> kw_train = arg_dataset a, kw_model = None,
                      kw_item_dataset = Some (arg_item_dataset a),
                      kw_interaction_dataset = Some (arg_interaction_dataset a),
                      kw_feature_importance = arg_feature_importance a,
                      kw_feature_importance_force_permutation =
                        arg_feature_importance_force_permutation a,
                      kw_feature_importance_timeout = arg_feature_importance_timeout a,
                      kw_with_display = arg_with_display a,
                      kw_y_pred_train = y_pred_train,
                      kw_y_proba_train = None, kw_model_classes = None \<rparr>
                  else
                    \<lparr> kw_train = arg_dataset a, kw_model = Some (arg_model a),
                      kw_item_dataset = None, kw_interaction_dataset = None,
                      kw_feature_importance = arg_feature_importance a,
                      kw_feature_importance_force_permutation =
                        arg_feature_importance_force_permutation a,
                      kw_feature_importance_timeout = arg_feature_importance_timeout a,
                      kw_with_display = arg_with_display a,
                      kw_y_pred_train = y_pred_train,
                      kw_y_proba_train = Some y_proba_train,
                      kw_model_classes = Some (arg_model_classes a) \<rparr>)
           in (ws, Some cls,
               (case make_context cls kwargs of
                  Inl e \<Rightarrow> Inl e
                | Inr ctx \<Rightarrow>
                    (case run_logic_of ctx TRAIN of
                       Inl e \<Rightarrow> Inl e
                     | Inr result \<Rightarrow>
                         (case finalize_check_result ctx result TRAIN of
                            Inl e \<Rightarrow> Inl e
                          | Inr _ \<Rightarrow> Inr result))))))"

section \<open>Concrete runs\<close>

text \<open>
  Exact-arithmetic versions of the numeric library: the arithmetic mean (above) and
  rounding to a number of decimals, ties to even.
\<close>

definition round_half_even :: "rat \<Rightarrow> int" where
  "round_half_even y =
     (let f = \<lfloor>y\<rfloor>; d = y - of_int f
      in if d < 1 / 2 then f else if d > 1 / 2 then f + 1 else if even f then f else f + 1)"

definition round_decimals :: "rat \<Rightarrow> nat \<Rightarrow> rat" where
  "round_decimals x n = of_int (round_half_even (x * 10 ^ n)) / 10 ^ n"

text \<open>A text dataset of two samples with two metadata columns.\<close>

definition ex_table :: dataframe where
  "ex_table =
     \<lparr> df_index = [LInt 0, LInt 1], df_columns = [''language'', ''length''],
       df_rows = [[CStr ''en'', CNum 12], [CStr ''fr'', CNum 7]] \<rparr>"

definition ex_text_data :: text_data where
  "ex_text_data =
     \<lparr> td_text = [''good film'', ''bad film''],
       td_label = [Single (CNum 1), Single (CNum 0)],
       td_task_type = TEXT_CLASSIFICATION, td_is_multi_label = False,
       td_original_text_indexes = [LInt 0, LInt 1],
       td_metadata = ex_table, td_properties = ex_table \<rparr>"

text \<open>The first \<open>n\<close> samples of a dataset.\<close>

definition first_rows :: "nat \<Rightarrow> dataframe \<Rightarrow> dataframe" where
  "first_rows n t = t\<lparr>df_index := take n (df_index t), df_rows := take n (df_rows t)\<rparr>"

definition first_samples :: "nat \<Rightarrow> text_data \<Rightarrow> text_data" where
  "first_samples n td =
     td\<lparr> td_text := take n (td_text td), td_label := take n (td_label td),
         td_original_text_indexes := take n (td_original_text_indexes td),
         td_metadata := first_rows n (td_metadata td),
         td_properties := first_rows n (td_properties td) \<rparr>"

definition ex_str_task_type :: "task_type \<Rightarrow> string" where
  "ex_str_task_type t =
     (case t of
        TEXT_CLASSIFICATION \<Rightarrow> ''TaskType.TEXT_CLASSIFICATION''
      | TOKEN_CLASSIFICATION \<Rightarrow> ''TaskType.TOKEN_CLASSIFICATION''
      | OTHER_TASK s \<Rightarrow> ''TaskType.'' @ s)"

definition ex_cell_of :: "label_value \<Rightarrow> cell" where
  "ex_cell_of l = (case l of Single c \<Rightarrow> c | Many cs \<Rightarrow> CNone)"

text \<open>
  Collaborators that do not look at the ambient random state: sampling takes the first
  \<open>n\<close> samples, the metadata columns are the table, the encoding keeps the table, every
  per-sample score of the model path is \<open>- 1 / 2\<close>, and the search is the one of the
  spec with one leaf per sample of the table and no two leaves similar.
\<close>

definition ex_leaves ::
  "dataframe \<Rightarrow> rat list \<Rightarrow> string list \<Rightarrow> ((string \<times> string) list \<times> nat list) list" where
  "ex_leaves table scores feature_rank =
     map (\<lambda>i. ([(''length'', ''row'')], [i])) [0 ..< length (df_index table)]"

definition ex_base :: "(rat, unit, segment, string, result_value) collaborators" where
  "ex_base =
     \<lparr> sample = (\<lambda>td n rs g. (Inr (first_samples (nat n) td), g)),
       get_relevant_data_table = (\<lambda>td sb c i n g. (Inr (td_metadata td, [''language'']), g)),
       target_encode_categorical_features_fill_na =
         (\<lambda>self f l c b g.
            (Inr \<lparr> ed_data = f, ed_label_col = map ex_cell_of l,
                    ed_features = df_columns f \<rparr>, g)),
       calculate_neg_cross_entropy_per_sample =
         (\<lambda>l p c g. (Inr (NdArray (map (\<lambda>_. - 1 / 2) l)), g)),
       DummyModel = (\<lambda>e p q b g. (Inr (), g)),
       weak_segments_search = (\<lambda>self d s l f dm sc g. (Inr [], g)),
       create_heatmap_display = (\<lambda>self d w s a l dm sc g. (Inr [''heatmap''], g)),
       generate_check_result_value =
         (\<lambda>self w c a g. (Inr \<lparr> rv_weak_segments = w, rv_avg_score = a \<rparr>, g)),
       array_mean = (\<lambda>a. arith_mean (array_values a)),
       py_round = round_decimals,
       str_task_type = ex_str_task_type \<rparr>"

definition ex_collaborators :: "(rat, unit, segment, string, result_value) collaborators" where
  "ex_collaborators = with_spec_search ex_leaves (\<lambda>a b. False) (\<lambda>cats preds. preds) ex_base"

definition ex_model :: "bool \<Rightarrow> rat nlp_model" where
  "ex_model has_proba =
     \<lparr> predict = (\<lambda>td g. (Inr (map (\<lambda>_. CNum 1) (td_text td)), g)),
       predict_proba =
         (if has_proba then Some (\<lambda>td g. (Inr (map (\<lambda>_. [1 / 2, 1 / 2]) (td_text td)), g))
          else None) \<rparr>"

text \<open>A context whose scorer gives \<open>1 / 2\<close>, the accuracy of the model above.\<close>

definition ex_context :: "rat nlp_model \<Rightarrow> task_type \<Rightarrow> bool \<Rightarrow> (rat, unit) nlp_context" where
  "ex_context m t disp =
     \<lparr> raise_if_token_classification_task =
         (\<lambda>g. (if t = TOKEN_CLASSIFICATION
                then Inl (DeepchecksNotSupportedError ''token classification'')
                else Inr (), g)),
       raise_if_multi_label_task = (\<lambda>g. (Inr (), g)),
       get_data_by_kind = (\<lambda>k g. (Inr ex_text_data, g)),
       random_state = 42,
       model = Inr m,
       task_type = t,
       model_classes = [CNum 0, CNum 1],
       get_single_scorer = (\<lambda>a g. (Inr (\<lambda>dm e g'. (Inr (1 / 2), g')), g)),
       with_display = disp \<rparr>"

definition ex_check :: "rat score_array option \<Rightarrow> int \<Rightarrow> rat weak_segments_check" where
  "ex_check sps n = init_check ''metadata'' None None (Some 10) (5 / 100) None sps n (5 / 100) 3"



text \<open>Two tabular datasets whose indexes share the label 0, and two that share none.\<close>

definition ex_train :: tab_dataset where
  "ex_train =
     \<lparr> ds_data = \<lparr> df_index = [LInt 0, LInt 1], df_columns = [''user''],
                   df_rows = [[CNum 3], [CNum 4]] \<rparr> \<rparr>"



text \<open>
  A call of \<open>run\<close> on a tabular dataset with both \<open>y_proba_train\<close> and \<open>y_proba\<close>; the
  context is its keyword record and \<open>run_logic\<close> returns the probabilities it received.
\<close>

definition ex_run_args ::
  "(tab_dataset, unit, unit, unit, unit, rat list, int) run_args" where
  "ex_run_args =
     \<lparr> arg_dataset = ex_train, arg_model = None, arg_item_dataset = None,
       arg_interaction_dataset = None, arg_feature_importance = None,
       arg_feature_importance_force_permutation = False,
       arg_feature_importance_timeout = 120, arg_with_display = True,
       arg_y_pred = None, arg_y_proba = Some [1 / 4, 3 / 4],
       arg_y_pred_train = None, arg_y_pred_test = None,
       arg_y_proba_train = Some [1 / 2, 1 / 2], arg_y_proba_test = None,
       arg_model_classes = None \<rparr>"

definition ex_run ::
  "warning list \<times> context_class option \<times> (error + rat list option option)" where
  "ex_run =
     single_dataset_run (\<lambda>d. TABULAR_TASK ''binary'') (\<lambda>cls kw. Inr kw)
       (\<lambda>ctx kind. Inr (kw_y_proba_train ctx)) (\<lambda>ctx r kind. Inr ()) None ex_run_args"

text \<open>The events of the first part of \<open>run_logic\<close>.\<close>

definition prepare_events :: "event set" where
  "prepare_events = {EvRaiseIfTokenClassificationTask, EvRaiseIfMultiLabelTask, EvGetDataByKind,
     EvSample, EvGetRelevantDataTable, EvTargetEncode}"


text \<open>
  A sampler that takes the last \<open>n\<close> samples instead of the first, and the collaborators
  with it in place.
\<close>

definition last_rows :: "nat \<Rightarrow> dataframe \<Rightarrow> dataframe" where
  "last_rows n t =
     t\<lparr>df_index := drop (length (df_index t) - n) (df_index t),
       df_rows := drop (length (df_rows t) - n) (df_rows t)\<rparr>"

definition last_samples :: "nat \<Rightarrow> text_data \<Rightarrow> text_data" where
  "last_samples n td =
     td\<lparr> td_text := drop (length (td_text td) - n) (td_text td),
         td_label := drop (length (td_label td) - n) (td_label td),
         td_original_text_indexes :=
           drop (length (td_original_text_indexes td) - n) (td_original_text_indexes td),
         td_metadata := last_rows n (td_metadata td),
         td_properties := last_rows n (td_properties td) \<rparr>"


text \<open>A model without \<open>predict_proba\<close> whose \<open>predict\<close> raises.\<close>

definition ex_failing_model :: "rat nlp_model" where
  "ex_failing_model =
     \<lparr> predict = (\<lambda>td g. (Inl (ValueError ''bad input''), g)), predict_proba = None \<rparr>"

text \<open>
  Collaborators whose sampler reads and advances the ambient random state: without a seed
  the state decides between the first and the last samples, with a seed the first samples
  are taken whatever the state.
\<close>

definition ex_seeded_collaborators ::
  "(rat, unit, segment, string, result_value) collaborators" where
  "ex_seeded_collaborators =
     ex_collaborators\<lparr>sample :=
       (\<lambda>td n rs g.
          case rs of
            None \<Rightarrow>
              (Inr (if even g then first_samples (nat n) td else last_samples (nat n) td),
               g + 1)
          | Some s \<Rightarrow> (Inr (first_samples (nat n) td), g + 1))\<rparr>"

section \<open>Laws of the execution monad\<close>

lemma return_exec_apply: "return_exec x s = (Inr x, s)"
  by (simp add: return_exec_def)

lemma raise_exec_apply: "raise_exec e s = (Inl e, s)"
  by (simp add: raise_exec_def)

lemma call_ev_apply: "call_ev ev f (tr, g) = (fst (f g), (tr @ [ev], snd (f g)))"
  by (simp add: call_ev_def split: prod.splits)

lemma lift_result_apply:
  "lift_result r s = (r, s)"
  by (simp add: lift_result_def return_exec_def raise_exec_def split: sum.splits)

lemma bind_exec_Inl: "m s = (Inl e, s1) \<Longrightarrow> bind_exec m k s = (Inl e, s1)"
  by (simp add: bind_exec_def)

lemma bind_exec_Inr: "m s = (Inr x, s1) \<Longrightarrow> bind_exec m k s = k x s1"
  by (simp add: bind_exec_def)

lemma bind_exec_cases:
  "bind_exec m k s = (r, s') \<Longrightarrow>
   (\<exists>e. m s = (Inl e, s') \<and> r = Inl e) \<or> (\<exists>x s1. m s = (Inr x, s1) \<and> k x s1 = (r, s'))"
  by (auto simp: bind_exec_def split: prod.splits sum.splits)

lemma bind_exec_InrD:
  "bind_exec m k s = (Inr y, s') \<Longrightarrow> \<exists>x s1. m s = (Inr x, s1) \<and> k x s1 = (Inr y, s')"
  by (auto simp: bind_exec_def split: prod.splits sum.splits)

lemma emits_return: "emits (return_exec x) E"
  by (simp add: emits_def return_exec_def)

lemma emits_raise: "emits (raise_exec e) E"
  by (simp add: emits_def raise_exec_def)

lemma emits_lift_result: "emits (lift_result r) E"
  by (simp add: emits_def lift_result_apply)

lemma emits_call: "ev \<in> E \<Longrightarrow> emits (call_ev ev f) E"
  by (simp add: emits_def call_ev_apply)

lemma emits_bind:
  assumes "emits m E" and "\<And>x. emits (k x) E"
  shows "emits (bind_exec m k) E"
  unfolding emits_def
proof (intro allI)
  fix tr g
  obtain r tr1 g1 where ms: "m (tr, g) = (r, (tr1, g1))"
    by (metis prod.exhaust)
  from assms(1) ms obtain new1 where n1: "tr1 = tr @ new1" "set new1 \<subseteq> E"
    unfolding emits_def by (metis fst_conv snd_conv)
  show "\<exists>new. fst (snd (bind_exec m k (tr, g))) = tr @ new \<and> set new \<subseteq> E"
  proof (cases r)
    case (Inl e)
    with ms n1 show ?thesis by (auto simp: bind_exec_def)
  next
    case (Inr x)
    from assms(2)[of x] obtain new2 where
      "fst (snd (k x (tr1, g1))) = tr1 @ new2" "set new2 \<subseteq> E"
      unfolding emits_def by blast
    with ms n1 Inr show ?thesis
      by (auto simp: bind_exec_def intro: exI[of _ "new1 @ new2"])
  qed
qed

lemma emits_mono: "emits m E \<Longrightarrow> E \<subseteq> E' \<Longrightarrow> emits m E'"
  unfolding emits_def by (meson subset_trans)

lemma emitsD:
  "emits m E \<Longrightarrow> m (tr, g) = (r, (tr', g')) \<Longrightarrow> \<exists>new. tr' = tr @ new \<and> set new \<subseteq> E"
  unfolding emits_def by (metis fst_conv snd_conv)


lemma emits_prepare: "emits (prepare env self ctx kind) prepare_events"
  unfolding prepare_def prepare_events_def
  by (intro emits_bind emits_call emits_return) (auto intro!: emits_bind emits_call emits_return)


lemma emits_scoring:
  "emits (scoring env self ctx td f enc)
     {EvModelPredict, EvModelPredictProba, EvNegCrossEntropy, EvDummyModel, EvGetSingleScorer, EvScorer}"
  unfolding scoring_def
  by (auto intro!: emits_bind emits_lift_result emits_return emits_call emits_raise
           split: option.splits)


section \<open>The parts of the weak-segments check\<close>


lemma scoring_no_proba:
  "score_per_sample self = None \<Longrightarrow> task_type ctx = TEXT_CLASSIFICATION \<Longrightarrow>
   model ctx = Inr m \<Longrightarrow> predict_proba m = None \<Longrightarrow>
   scoring env self ctx td features enc (tr, g) =
     (case fst (predict m td g) of
        Inl e \<Rightarrow> (Inl e, (tr @ [EvModelPredict], snd (predict m td g)))
      | Inr predictions \<Rightarrow>
          (Inl (DeepchecksNotSupportedError proba_not_supplied_msg),
           (tr @ [EvModelPredict], snd (predict m td g))))"
  by (simp add: scoring_def bind_exec_def lift_result_apply call_ev_apply raise_exec_def
           split: sum.splits)

lemma scoring_other_task:
  "score_per_sample self = None \<Longrightarrow> task_type ctx \<noteq> TEXT_CLASSIFICATION \<Longrightarrow>
   model ctx = Inr m \<Longrightarrow>
   scoring env self ctx td features enc (tr, g) =
     (case fst (predict m td g) of
        Inl e \<Rightarrow> (Inl e, (tr @ [EvModelPredict], snd (predict m td g)))
      | Inr predictions \<Rightarrow>
          (Inl (DeepchecksNotSupportedError
                  (task_not_supported_msg (str_task_type env (task_type ctx)))),
           (tr @ [EvModelPredict], snd (predict m td g))))"
  by (simp add: scoring_def bind_exec_def lift_result_apply call_ev_apply raise_exec_def
           split: sum.splits)

lemma scoring_other_task_fails:
  "score_per_sample self = None \<Longrightarrow> task_type ctx \<noteq> TEXT_CLASSIFICATION \<Longrightarrow>
   \<exists>e. fst (scoring env self ctx td features enc s) = Inl e"
  by (cases s)
     (auto simp add: scoring_def bind_exec_def lift_result_apply call_ev_apply raise_exec_def
           split: sum.splits)

lemma scoring_other_task_emits:
  "score_per_sample self = None \<Longrightarrow> task_type ctx \<noteq> TEXT_CLASSIFICATION \<Longrightarrow>
   emits (scoring env self ctx td features enc) {EvModelPredict}"
  unfolding scoring_def
  by (auto intro!: emits_bind emits_lift_result emits_return emits_call emits_raise)

lemma scoring_no_proba_fails:
  "score_per_sample self = None \<Longrightarrow> task_type ctx = TEXT_CLASSIFICATION \<Longrightarrow>
   model ctx = Inr m \<Longrightarrow> predict_proba m = None \<Longrightarrow>
   \<exists>e. fst (scoring env self ctx td features enc s) = Inl e"
  by (cases s) (auto simp add: scoring_no_proba split: sum.splits)

lemma scoring_no_proba_emits:
  "score_per_sample self = None \<Longrightarrow> task_type ctx = TEXT_CLASSIFICATION \<Longrightarrow>
   model ctx = Inr m \<Longrightarrow> predict_proba m = None \<Longrightarrow>
   emits (scoring env self ctx td features enc) {EvModelPredict}"
  by (auto simp: emits_def scoring_no_proba split: sum.splits)

lemma search_empty:
  "weak_segments_search env self (ed_data enc) sps (ed_label_col enc) (ed_features enc) dm sc g
     = (Inr [], g') \<Longrightarrow>
   search_and_report env self ctx cats enc sps sc dm avg (tr, g) =
     (Inl (DeepchecksProcessError (no_segments_msg (segment_by self))),
      (tr @ [EvWeakSegmentsSearch], g'))"
  by (simp add: search_and_report_def bind_exec_def call_ev_apply raise_exec_def)

lemma search_and_report_value:
  "search_and_report env self ctx cats enc sps sc dm avg s = (Inr r, s') \<Longrightarrow>
   \<exists>ws g1 g2 g3 g4. weak_segments_search env self (ed_data enc) sps (ed_label_col enc) (ed_features enc) dm sc g1 = (Inr ws, g2) \<and> ws \<noteq> [] \<and>
      generate_check_result_value env self ws cats avg g3 = (Inr (cr_value r), g4)"
  apply (cases s)
  apply (auto simp add: search_and_report_def bind_exec_def call_ev_apply raise_exec_def return_exec_def
       split: sum.splits if_splits prod.splits)
     apply (metis prod.collapse)+
  done

lemmas exec_simps = bind_exec_def call_ev_def return_exec_def raise_exec_def lift_result_def

lemmas ex_ws_defs = ex_collaborators_def ex_base_def with_spec_search_def ex_check_def
  init_check_def ex_context_def ex_model_def ex_text_data_def ex_table_def first_samples_def
  first_rows_def ex_cell_of_def ex_leaves_def ex_str_task_type_def

lemmas stage_defs = run_logic_def prepare_def scoring_def search_and_report_def

lemma bind_exec_fails:
  "(\<And>x s1. \<exists>e. fst (k x s1) = Inl e) \<Longrightarrow> \<exists>e. fst (bind_exec m k s) = Inl e"
  unfolding bind_exec_def
  by (cases "m s") (auto split: sum.splits)


lemma bind_exec_fail_eq: "fst (m s) = Inl e \<Longrightarrow> bind_exec m k s = (Inl e, snd (m s))"
  by (cases "m s") (simp add: bind_exec_def)

lemma emits_bind_fails:
  assumes "emits m E" and "\<And>s. \<exists>e. fst (m s) = Inl e"
  shows "emits (bind_exec m k) E"
  unfolding emits_def
proof (intro allI)
  fix tr g
  from assms(2)[of "(tr, g)"] obtain e where "fst (m (tr, g)) = Inl e" by blast
  then have "bind_exec m k (tr, g) = (Inl e, snd (m (tr, g)))" by (rule bind_exec_fail_eq)
  with assms(1) show "\<exists>new. fst (snd (bind_exec m k (tr, g))) = tr @ new \<and> set new \<subseteq> E"
    by (simp add: emits_def)
qed

lemma run_logic_fails_if_scoring_fails:
  assumes "\<And>td f enc s. \<exists>e. fst (scoring env self ctx td f enc s) = Inl e"
  shows "\<exists>e. fst (run_logic env self ctx kind s) = Inl e"
  unfolding run_logic_def
proof (rule bind_exec_fails)
  fix x :: "text_data \<times> dataframe \<times> string list \<times> encoded_dataset" and s1
  obtain td f c enc where x: "x = (td, f, c, enc)" by (cases x) auto
  from assms[of td f enc s1] obtain e where "fst (scoring env self ctx td f enc s1) = Inl e"
    by blast
  then show "\<exists>e. fst ((case x of (text_data, features, cat_features, encoded) \<Rightarrow>
          bind_exec (scoring env self ctx text_data features encoded)
           (\<lambda>(sps, scorer, dummy_model, avg_score).
             search_and_report env self ctx cat_features encoded sps scorer dummy_model
               avg_score)) s1) = Inl e"
    by (simp add: x bind_exec_fail_eq)
qed

lemma emits_run_logic_scoring_fails:
  assumes "\<And>td f enc. emits (scoring env self ctx td f enc) E"
    and "\<And>td f enc s. \<exists>e. fst (scoring env self ctx td f enc s) = Inl e"
  shows "emits (run_logic env self ctx kind) (prepare_events \<union> E)"
  unfolding run_logic_def
proof (rule emits_bind)
  show "emits (prepare env self ctx kind) (prepare_events \<union> E)"
    by (rule emits_mono[OF emits_prepare]) blast
next
  fix x :: "text_data \<times> dataframe \<times> string list \<times> encoded_dataset"
  obtain td f c enc where x: "x = (td, f, c, enc)" by (cases x) auto
  have "emits (bind_exec (scoring env self ctx td f enc)
           (\<lambda>(sps, scorer, dummy_model, avg_score).
             search_and_report env self ctx c enc sps scorer dummy_model avg_score))
          (prepare_events \<union> E)"
    by (rule emits_bind_fails[OF emits_mono[OF assms(1)]]) (auto intro: assms(2))
  then show "emits (case x of (text_data, features, cat_features, encoded) \<Rightarrow>
          bind_exec (scoring env self ctx text_data features encoded)
           (\<lambda>(sps, scorer, dummy_model, avg_score).
             search_and_report env self ctx cat_features encoded sps scorer dummy_model avg_score))
        (prepare_events \<union> E)"
    by (simp add: x)
qed


section \<open>The run after the preparation\<close>

lemma run_logic_after_prepare:
  "prepare env self ctx kind s = (Inr (td, features, cats, enc), s1) \<Longrightarrow>
   run_logic env self ctx kind s =
     bind_exec (scoring env self ctx td features enc)
       (\<lambda>(sps, sc, dm, avg). search_and_report env self ctx cats enc sps sc dm avg) s1"
  by (simp add: run_logic_def bind_exec_Inr)


lemma run_logic_no_proba_after_prepare:
  assumes "score_per_sample self = None" and "task_type ctx = TEXT_CLASSIFICATION"
    and "model ctx = Inr m" and "predict_proba m = None"
    and "prepare env self ctx kind s = (Inr (td, features, cats, enc), (tr1, g1))"
  shows "run_logic env self ctx kind s =
           (case predict m td g1 of
              (Inl e, g2) \<Rightarrow> (Inl e, (tr1 @ [EvModelPredict], g2))
            | (Inr predictions, g2) \<Rightarrow>
                (Inl (DeepchecksNotSupportedError proba_not_supplied_msg),
                 (tr1 @ [EvModelPredict], g2)))"
  by (cases "predict m td g1")
     (simp add: run_logic_after_prepare[OF assms(5)] bind_exec_def
        scoring_no_proba[OF assms(1-4)] split: sum.splits)

lemma run_logic_other_task_after_prepare:
  assumes "score_per_sample self = None" and "task_type ctx \<noteq> TEXT_CLASSIFICATION"
    and "model ctx = Inr m"
    and "prepare env self ctx kind s = (Inr (td, features, cats, enc), (tr1, g1))"
  shows "run_logic env self ctx kind s =
           (case predict m td g1 of
              (Inl e, g2) \<Rightarrow> (Inl e, (tr1 @ [EvModelPredict], g2))
            | (Inr predictions, g2) \<Rightarrow>
                (Inl (DeepchecksNotSupportedError
                        (task_not_supported_msg (str_task_type env (task_type ctx)))),
                 (tr1 @ [EvModelPredict], g2)))"
  by (cases "predict m td g1")
     (simp add: run_logic_after_prepare[OF assms(4)] bind_exec_def
        scoring_other_task[OF assms(1-3)] split: sum.splits)

section \<open>Indexing a score array\<close>






section \<open>The preparation on the example data\<close>

lemma ex_prepare:
  "t \<noteq> TOKEN_CLASSIFICATION \<Longrightarrow>
   prepare ex_collaborators (ex_check sps 10) (ex_context m t disp) TRAIN ([], 0) =
   (Inr (ex_text_data, ex_table, [''language''],
         \<lparr> ed_data = ex_table, ed_label_col = [CNum 1, CNum 0],
           ed_features = [''language'', ''length''] \<rparr>),
    ([EvRaiseIfTokenClassificationTask, EvRaiseIfMultiLabelTask, EvGetDataByKind, EvSample,
      EvGetRelevantDataTable, EvTargetEncode], 0))"
  by (simp add: prepare_def exec_simps ex_ws_defs)

section \<open>The average score and the reported segments\<close>


lemma run_logic_InrD:
  assumes "run_logic env self ctx kind s = (Inr r, s')"
  shows "\<exists>td features cats enc s1 sps sc dm avg s2.
           prepare env self ctx kind s = (Inr (td, features, cats, enc), s1) \<and>
           scoring env self ctx td features enc s1 = (Inr (sps, sc, dm, avg), s2) \<and>
           search_and_report env self ctx cats enc sps sc dm avg s2 = (Inr r, s')"
proof -
  from assms obtain p s1 where p: "prepare env self ctx kind s = (Inr p, s1)"
    and k1: "(case p of (text_data, features, cat_features, encoded) \<Rightarrow>
          bind_exec (scoring env self ctx text_data features encoded)
           (\<lambda>(sps, scorer, dummy_model, avg_score).
             search_and_report env self ctx cat_features encoded sps scorer dummy_model
               avg_score)) s1 = (Inr r, s')"
    unfolding run_logic_def by (blast dest: bind_exec_InrD)
  obtain td features cats enc where pe: "p = (td, features, cats, enc)" by (cases p) auto
  from k1 pe obtain q s2 where q: "scoring env self ctx td features enc s1 = (Inr q, s2)"
    and k2: "(case q of (sps, scorer, dummy_model, avg_score) \<Rightarrow>
             search_and_report env self ctx cats enc sps scorer dummy_model avg_score) s2
           = (Inr r, s')"
    by (auto dest: bind_exec_InrD)
  obtain sps sc dm avg where qe: "q = (sps, sc, dm, avg)" by (cases q) auto
  from k2 qe have "search_and_report env self ctx cats enc sps sc dm avg s2 = (Inr r, s')"
    by simp
  with p[unfolded pe] q[unfolded qe] show ?thesis by blast
qed

lemma set_insert_ranked: "set (insert_ranked avg s ts) = insert s (set ts)"
  by (induction ts) auto

lemma set_rank_segments: "set (rank_segments avg ss) = set ss"
  by (induction ss) (auto simp: set_insert_ranked)

lemma set_prune_similar: "set (prune_similar similar ss) \<subseteq> set ss"
  by (induction similar ss rule: prune_similar.induct) auto

lemma spec_search_meets_minimum_size:
  assumes "seg \<in> set (spec_weak_segments_search leaves similar ratio table scores feature_rank)"
  shows "meets_minimum_size ratio (length (df_index table)) seg"
proof -
  let ?valid = "filter (meets_minimum_size ratio (length (df_index table)))
                  (map (\<lambda>(preds, idx).
                          \<lparr> seg_predicates = preds, seg_indices = idx,
                            seg_score = arith_mean (map (\<lambda>i. scores ! i) idx) \<rparr>)
                       (leaves table scores feature_rank))"
  from assms have "seg \<in> set (prune_similar similar (rank_segments (arith_mean scores) ?valid))"
    by (simp add: spec_weak_segments_search_def Let_def)
  with set_prune_similar have "seg \<in> set (rank_segments (arith_mean scores) ?valid)"
    by blast
  then have "seg \<in> set ?valid" by (simp only: set_rank_segments)
  then show ?thesis by simp
qed

lemma search_and_report_spec_sizes:
  assumes "search_and_report (with_spec_search leaves similar decode env) self ctx cats enc sps
             sc dm avg s = (Inr r, s')"
    and "seg \<in> set (rv_weak_segments (cr_value r))"
  shows "segment_minimum_size_ratio self * of_nat (length (df_index (ed_data enc)))
           \<le> of_nat (seg_size seg)"
proof -
  from search_and_report_value[OF assms(1)] obtain ws g3 g4 where
    ws: "ws = spec_weak_segments_search leaves similar (segment_minimum_size_ratio self)
               (ed_data enc) (array_values sps) (ed_features enc)"
    and v: "cr_value r = spec_generate_check_result_value decode ws cats avg"
    by (auto simp: with_spec_search_def)
  from assms(2) v obtain seg0 where s0: "seg0 \<in> set ws"
    and "seg = seg0\<lparr>seg_predicates := decode cats (seg_predicates seg0)\<rparr>"
    by (auto simp: spec_generate_check_result_value_def)
  then have "seg_size seg = seg_size seg0" by (simp add: seg_size_def)
  moreover from s0 ws have "meets_minimum_size (segment_minimum_size_ratio self)
      (length (df_index (ed_data enc))) seg0"
    by (simp add: spec_search_meets_minimum_size)
  ultimately show ?thesis by (simp add: meets_minimum_size_def)
qed

section \<open>Two runs of the weak-segments check on the example data\<close>

lemmas run_defs = run_logic_def prepare_def scoring_def search_and_report_def
  bind_exec_def call_ev_def return_exec_def raise_exec_def lift_result_def
  ex_collaborators_def ex_base_def with_spec_search_def ex_check_def init_check_def
  ex_context_def ex_model_def ex_text_data_def ex_table_def first_samples_def first_rows_def
  ex_cell_of_def ex_leaves_def ex_str_task_type_def spec_weak_segments_search_def
  spec_generate_check_result_value_def arith_mean_def meets_minimum_size_def seg_size_def
  ranks_before_def weakness_def round_decimals_def round_half_even_def np_item_def
  display_msg_def no_segments_msg_def getitem_def array_values_def Let_def


lemma ex_model_run:
  "run_logic ex_collaborators (ex_check None 10)
     (ex_context (ex_model True) TEXT_CLASSIFICATION False) TRAIN ([], 0) =
   (Inr \<lparr> cr_value =
            \<lparr> rv_weak_segments =
                [\<lparr> seg_predicates = [(''length'', ''row'')], seg_indices = [0],
                    seg_score = - 1 / 2 \<rparr>,
                 \<lparr> seg_predicates = [(''length'', ''row'')], seg_indices = [1],
                    seg_score = - 1 / 2 \<rparr>],
              rv_avg_score = 1 / 2 \<rparr>,
          cr_display_msg =
            ''Showcasing intersections of metadata with weakest detected segments.<br> The full list of weak segments can be observed in the check result value. '',
          cr_display_map = [] \<rparr>,
    ([EvRaiseIfTokenClassificationTask, EvRaiseIfMultiLabelTask, EvGetDataByKind, EvSample,
      EvGetRelevantDataTable, EvTargetEncode, EvModelPredict, EvModelPredictProba,
      EvNegCrossEntropy, EvDummyModel, EvGetSingleScorer, EvScorer, EvWeakSegmentsSearch,
      EvGenerateCheckResultValue], 0))"
  by (simp add: run_defs)






section \<open>The preparation after the sampling\<close>



section \<open>The datasets after the construction of the dummy model\<close>




section \<open>Independence of the ambient random state\<close>

lemma ambient_free_return: "ambient_free (return_exec x)"
  by (simp add: ambient_free_def return_exec_def)

lemma ambient_free_raise: "ambient_free (raise_exec e)"
  by (simp add: ambient_free_def raise_exec_def)

lemma ambient_free_lift_result: "ambient_free (lift_result r)"
  by (simp add: ambient_free_def lift_result_apply)

lemma ambient_free_call: "seeded f \<Longrightarrow> ambient_free (call_ev ev f)"
  by (simp add: ambient_free_def seeded_def call_ev_apply)

lemma ambient_free_bind:
  assumes "ambient_free m" and "\<And>x s s'. m s = (Inr x, s') \<Longrightarrow> ambient_free (k x)"
  shows "ambient_free (bind_exec m k)"
  unfolding ambient_free_def
proof (intro allI)
  fix tr g1 g2
  obtain r1 t1 h1 where m1: "m (tr, g1) = (r1, (t1, h1))" by (metis prod.exhaust)
  obtain r2 t2 h2 where m2: "m (tr, g2) = (r2, (t2, h2))" by (metis prod.exhaust)
  from assms(1) m1 m2 have eq: "r2 = r1" "t2 = t1"
    unfolding ambient_free_def by (metis fst_conv snd_conv)+
  show "fst (bind_exec m k (tr, g1)) = fst (bind_exec m k (tr, g2)) \<and>
        fst (snd (bind_exec m k (tr, g1))) = fst (snd (bind_exec m k (tr, g2)))"
  proof (cases r1)
    case (Inl e)
    with m1 m2 eq show ?thesis by (simp add: bind_exec_def)
  next
    case (Inr x)
    from assms(2)[OF m1[unfolded Inr]] have "ambient_free (k x)" .
    then have "fst (k x (t1, h1)) = fst (k x (t1, h2)) \<and>
               fst (snd (k x (t1, h1))) = fst (snd (k x (t1, h2)))"
      unfolding ambient_free_def by blast
    with m1 m2 eq Inr show ?thesis by (simp add: bind_exec_def)
  qed
qed

lemma ambient_free_bind_call:
  assumes "seeded f" and "\<And>x g. fst (f g) = Inr x \<Longrightarrow> ambient_free (k x)"
  shows "ambient_free (bind_exec (call_ev ev f) k)"
proof (rule ambient_free_bind[OF ambient_free_call[OF assms(1)]])
  fix x s s'
  assume a: "call_ev ev f s = (Inr x, s')"
  obtain tr g where "s = (tr, g)" by (cases s) auto
  with a have "fst (f g) = Inr x" by (simp add: call_ev_apply)
  then show "ambient_free (k x)" by (rule assms(2))
qed

lemma ambient_free_bind_lift:
  assumes "\<And>x. r = Inr x \<Longrightarrow> ambient_free (k x)"
  shows "ambient_free (bind_exec (lift_result r) k)"
proof (rule ambient_free_bind[OF ambient_free_lift_result])
  fix x s s'
  assume "lift_result r s = (Inr x, s')"
  then have "r = Inr x" by (simp add: lift_result_apply)
  then show "ambient_free (k x)" by (rule assms)
qed

lemma ambient_free_prepare:
  assumes "seeded_collaborators env" and "seeded_context ctx"
  shows "ambient_free (prepare env self ctx kind)"
  using assms unfolding prepare_def
  by (auto intro!: ambient_free_bind_call ambient_free_return
           simp: seeded_collaborators_def seeded_context_def)

lemma ambient_free_scoring:
  assumes "seeded_collaborators env" and "seeded_context ctx"
  shows "ambient_free (scoring env self ctx td features enc)"
proof (cases "score_per_sample self")
  case (Some arr)
  then show ?thesis
    unfolding scoring_def
    by (auto intro!: ambient_free_bind_lift ambient_free_return)
next
  case None
  have tail: "ambient_free
          (bind_exec (call_ev EvModelPredictProba (pp td)) (\<lambda>y_proba.
           bind_exec (call_ev EvNegCrossEntropy
                        (calculate_neg_cross_entropy_per_sample env (td_label td)
                           y_proba (model_classes ctx)))
             (\<lambda>sps.
           bind_exec (call_ev EvDummyModel (DummyModel env enc predictions y_proba False))
             (\<lambda>dummy_model.
           bind_exec (call_ev EvGetSingleScorer
                        (get_single_scorer ctx (alternative_scorer self)))
             (\<lambda>scorer.
           bind_exec (call_ev EvScorer (scorer dummy_model enc)) (\<lambda>sc.
           return_exec (sps, Some scorer, Some dummy_model, py_round env sc 3)))))))"
    if "seeded (pp td)" for pp predictions
    using that assms
    by (auto intro!: ambient_free_bind_call ambient_free_return
             simp: seeded_collaborators_def seeded_context_def)
  show ?thesis
    unfolding scoring_def None option.case
  proof (rule ambient_free_bind_lift)
    fix m
    assume "model ctx = Inr m"
    with assms(2) have sm: "seeded_model m" by (simp add: seeded_context_def)
    then have p: "seeded (predict m td)" by (simp add: seeded_model_def)
    show "ambient_free
        (bind_exec (call_ev EvModelPredict (predict m td))
          (\<lambda>predictions.
              if task_type ctx = TEXT_CLASSIFICATION
              then case predict_proba m of
                   None \<Rightarrow> raise_exec (DeepchecksNotSupportedError proba_not_supplied_msg)
                   | Some pp \<Rightarrow>
                       bind_exec (call_ev EvModelPredictProba (pp td))
                        (\<lambda>y_proba.
                            bind_exec
                             (call_ev EvNegCrossEntropy
                               (calculate_neg_cross_entropy_per_sample env (td_label td)
                                 y_proba (model_classes ctx)))
                             (\<lambda>sps.
                                 bind_exec
                                  (call_ev EvDummyModel
                                    (DummyModel env enc predictions y_proba False))
                                  (\<lambda>dummy_model.
                                      bind_exec
                                       (call_ev EvGetSingleScorer
                                         (get_single_scorer ctx (alternative_scorer self)))
                                       (\<lambda>scorer.
                                           bind_exec
                                            (call_ev EvScorer (scorer dummy_model enc))
                                            (\<lambda>sc.
                                                return_exec
                                                 (sps, Some scorer, Some dummy_model,
                                                  py_round env sc 3))))))
              else raise_exec
                    (DeepchecksNotSupportedError
                      (task_not_supported_msg (str_task_type env (task_type ctx))))))"
    proof (rule ambient_free_bind_call[OF p])
      fix predictions g
      show "ambient_free
            (if task_type ctx = TEXT_CLASSIFICATION
              then case predict_proba m of
                   None \<Rightarrow> raise_exec (DeepchecksNotSupportedError proba_not_supplied_msg)
                   | Some pp \<Rightarrow>
                       bind_exec (call_ev EvModelPredictProba (pp td))
                        (\<lambda>y_proba.
                            bind_exec
                             (call_ev EvNegCrossEntropy
                               (calculate_neg_cross_entropy_per_sample env (td_label td)
                                 y_proba (model_classes ctx)))
                             (\<lambda>sps.
                                 bind_exec
                                  (call_ev EvDummyModel
                                    (DummyModel env enc predictions y_proba False))
                                  (\<lambda>dummy_model.
                                      bind_exec
                                       (call_ev EvGetSingleScorer
                                         (get_single_scorer ctx (alternative_scorer self)))
                                       (\<lambda>scorer.
                                           bind_exec
                                            (call_ev EvScorer (scorer dummy_model enc))
                                            (\<lambda>sc.
                                                return_exec
                                                 (sps, Some scorer, Some dummy_model,
                                                  py_round env sc 3))))))
              else raise_exec
                    (DeepchecksNotSupportedError
                      (task_not_supported_msg (str_task_type env (task_type ctx)))))"
      proof (cases "predict_proba m")
        case None
        then show ?thesis by (simp add: ambient_free_raise)
      next
        case (Some pp)
        with sm have "seeded (pp td)" by (simp add: seeded_model_def)
        from tail[of pp predictions, OF this] Some show ?thesis
          by (simp add: ambient_free_raise)
      qed
    qed
  qed
qed

lemma ambient_free_search_and_report:
  assumes "seeded_collaborators env"
  shows "ambient_free (search_and_report env self ctx cats enc sps sc dm avg)"
  using assms unfolding search_and_report_def
  by (auto intro!: ambient_free_bind_call ambient_free_bind ambient_free_call
                   ambient_free_return ambient_free_raise
           simp: seeded_collaborators_def)

lemma ambient_free_run_logic:
  assumes "seeded_collaborators env" and "seeded_context ctx"
  shows "ambient_free (run_logic env self ctx kind)"
  unfolding run_logic_def
  by (auto intro!: ambient_free_bind ambient_free_prepare ambient_free_scoring
                   ambient_free_search_and_report assms)

lemma ambient_free_if:
  "(c \<Longrightarrow> ambient_free a) \<Longrightarrow> (\<not> c \<Longrightarrow> ambient_free b) \<Longrightarrow>
   ambient_free (if c then a else b)"
  by simp

lemma seeded_then:
  assumes "seeded f" and "\<And>x. seeded (h x)"
  shows "seeded (\<lambda>g. case f g of (Inl e, g') \<Rightarrow> (Inl e, g') | (Inr x, g') \<Rightarrow> h x g')"
  unfolding seeded_def
proof (intro allI)
  fix g1 g2
  obtain r1 h1 where f1: "f g1 = (r1, h1)" by (cases "f g1")
  obtain r2 h2 where f2: "f g2 = (r2, h2)" by (cases "f g2")
  from assms(1) f1 f2 have r: "r2 = r1" unfolding seeded_def by (metis fst_conv)
  show "fst (case f g1 of (Inl e, g') \<Rightarrow> (Inl e, g') | (Inr x, g') \<Rightarrow> h x g') =
        fst (case f g2 of (Inl e, g') \<Rightarrow> (Inl e, g') | (Inr x, g') \<Rightarrow> h x g')"
  proof (cases r1)
    case (Inl e)
    with f1 f2 r show ?thesis by simp
  next
    case (Inr x)
    from assms(2)[of x] have "fst (h x h1) = fst (h x h2)" unfolding seeded_def by blast
    with f1 f2 r Inr show ?thesis by simp
  qed
qed

lemma ambient_free_cl_run_logic:
  assumes "seeded_cl_collaborators env" and "\<And>k. seeded (get_data_by_kind ctx k)"
  shows "ambient_free (cl_run_logic env self ctx kind)"
proof -
  from assms(1) have s1: "\<And>td n s. seeded (cl_sample env td n (Some s))"
    and s2: "\<And>t k. seeded (normalize_samples env t k)"
    and s3: "\<And>t. seeded (hash_samples env t)"
    by (simp_all add: seeded_cl_collaborators_def)
  have nh: "seeded (\<lambda>g. case normalize_samples env t kw g of
                            (Inl e, g') \<Rightarrow> (Inl e, g')
                          | (Inr normalized, g') \<Rightarrow> hash_samples env normalized g')" for t kw
    by (rule seeded_then[OF s2 s3])
  show ?thesis
    unfolding cl_run_logic_def Let_def
    by (intro ambient_free_bind_call ambient_free_bind_lift ambient_free_if
          ambient_free_bind ambient_free_raise ambient_free_return ambient_free_lift_result
          ambient_free_call s1 nh assms(2))
qed

section \<open>The claims\<close>

text \<open>
  C5. When the preparation and the scoring have returned and the segment search returns
  an empty list, the weak-segments check raises a processing error, not a result; its
  message suggests increasing \<open>n_samples\<close> or supplying more of the kind of column the
  check segments by. The search is the last call recorded.
\<close>

theorem empty_search_raises_process_error:
  assumes "prepare env self ctx kind s0 = (Inr (td, features, cats, enc), s1)"
    and "scoring env self ctx td features enc s1 = (Inr (sps, sc, dm, avg), (tr, g))"
    and "weak_segments_search env self (ed_data enc) sps (ed_label_col enc) (ed_features enc)
           dm sc g = (Inr [], g')"
  shows "run_logic env self ctx kind s0 =
           (Inl (DeepchecksProcessError
                   (''WeakSegmentsPerformance was unable to train an error model to find weak segments. Try increasing n_samples or supply more '' @
                    segment_by self @ ''.'')),
            (tr @ [EvWeakSegmentsSearch], g'))"
proof -
  have "run_logic env self ctx kind s0 =
          search_and_report env self ctx cats enc sps sc dm avg (tr, g)"
    using assms(1,2) by (simp add: run_logic_def bind_exec_Inr)
  with search_empty[OF assms(3)] show ?thesis
    by (simp add: no_segments_msg_def)
qed

theorem empty_search_raises_process_error_witness:
  "run_logic ex_base (ex_check None 10)
     (ex_context (ex_model True) TEXT_CLASSIFICATION False) TRAIN ([], 0) =
   (Inl (DeepchecksProcessError
           ''WeakSegmentsPerformance was unable to train an error model to find weak segments. Try increasing n_samples or supply more metadata.''),
    ([EvRaiseIfTokenClassificationTask, EvRaiseIfMultiLabelTask, EvGetDataByKind, EvSample,
      EvGetRelevantDataTable, EvTargetEncode, EvModelPredict, EvModelPredictProba,
      EvNegCrossEntropy, EvDummyModel, EvGetSingleScorer, EvScorer, EvWeakSegmentsSearch], 0))"
proof -
  let ?enc = "\<lparr> ed_data = ex_table, ed_label_col = [CNum 1, CNum 0],
                 ed_features = [''language'', ''length''] \<rparr>"
  let ?ctx = "ex_context (ex_model True) TEXT_CLASSIFICATION False"
  have p: "prepare ex_base (ex_check None 10) ?ctx TRAIN ([], 0) =
             (Inr (ex_text_data, ex_table, [''language''], ?enc),
              ([EvRaiseIfTokenClassificationTask, EvRaiseIfMultiLabelTask, EvGetDataByKind,
                EvSample, EvGetRelevantDataTable, EvTargetEncode], 0))"
    by (simp add: prepare_def exec_simps ex_ws_defs)
  have s: "scoring ex_base (ex_check None 10) ?ctx ex_text_data ex_table ?enc
             ([EvRaiseIfTokenClassificationTask, EvRaiseIfMultiLabelTask, EvGetDataByKind,
               EvSample, EvGetRelevantDataTable, EvTargetEncode], 0) =
             (Inr (NdArray [- 1 / 2, - 1 / 2], Some (\<lambda>dm e g'. (Inr (1 / 2), g')), Some (), 1 / 2),
              ([EvRaiseIfTokenClassificationTask, EvRaiseIfMultiLabelTask, EvGetDataByKind,
                EvSample, EvGetRelevantDataTable, EvTargetEncode, EvModelPredict,
                EvModelPredictProba, EvNegCrossEntropy, EvDummyModel, EvGetSingleScorer,
                EvScorer], 0))"
    by (simp add: scoring_def exec_simps ex_ws_defs round_decimals_def round_half_even_def)
  have w: "weak_segments_search ex_base (ex_check None 10) (ed_data ?enc)
             (NdArray [- 1 / 2, - 1 / 2])
             (ed_label_col ?enc) (ed_features ?enc) (Some ())
             (Some (\<lambda>dm e g'. (Inr (1 / 2), g'))) 0 = (Inr [], 0)"
    by (simp add: ex_base_def)
  show ?thesis
    using empty_search_raises_process_error [OF p s w]
    by (simp add: ex_check_def init_check_def)
qed




text \<open>
  C6. The claim that a model without \<open>predict_proba\<close> is refused with the not-supported
  error before any scoring attempt fails: the check calls \<open>predict\<close> on the sampled data
  before it looks for \<open>predict_proba\<close>. On the example data, with a model that has no
  \<open>predict_proba\<close> and whose \<open>predict\<close> raises a ValueError, the run records the call
  of \<open>predict\<close> and fails with that ValueError.
\<close>

theorem predict_is_called_before_the_capability_check:
  "predict_proba ex_failing_model = None \<and>
   score_per_sample (ex_check None 10 :: rat weak_segments_check) = None \<and>
   run_logic ex_collaborators (ex_check None 10)
     (ex_context ex_failing_model TEXT_CLASSIFICATION False) TRAIN ([], 0) =
   (Inl (ValueError ''bad input''),
    ([EvRaiseIfTokenClassificationTask, EvRaiseIfMultiLabelTask, EvGetDataByKind, EvSample,
      EvGetRelevantDataTable, EvTargetEncode, EvModelPredict], 0))"
  by (simp add: run_logic_def prepare_def scoring_def exec_simps ex_ws_defs
        ex_failing_model_def)

text \<open>
  C6, amended. On a text classification task with no per-sample score array and a model
  without \<open>predict_proba\<close>, a run whose preparation has returned calls \<open>predict\<close> on the
  sampled data and nothing after it: it fails with the error of \<open>predict\<close> if that call
  raises, and otherwise with the not-supported error on predicted probabilities, before
  \<open>predict_proba\<close>, the cross-entropy, the dummy model and the scorer are called.
\<close>

theorem no_predict_proba_is_not_supported:
  assumes "score_per_sample self = None" and "task_type ctx = TEXT_CLASSIFICATION"
    and "model ctx = Inr m" and "predict_proba m = None"
    and "prepare env self ctx kind s = (Inr (td, features, cats, enc), (tr1, g1))"
  shows "run_logic env self ctx kind s =
           (case predict m td g1 of
              (Inl e, g2) \<Rightarrow> (Inl e, (tr1 @ [EvModelPredict], g2))
            | (Inr predictions, g2) \<Rightarrow>
                (Inl (DeepchecksNotSupportedError
                        ''Predicted probabilities not supplied. The weak segment checks relies on cross entropy error that requires predicted probabilities, rather than only predicted classes.''),
                 (tr1 @ [EvModelPredict], g2)))"
  by (simp add: run_logic_no_proba_after_prepare[OF assms] proba_not_supplied_msg_def
        split: prod.splits sum.splits)

theorem no_predict_proba_is_not_supported_witness:
  "run_logic ex_collaborators (ex_check None 10)
     (ex_context (ex_model False) TEXT_CLASSIFICATION False) TRAIN ([], 0) =
   (Inl (DeepchecksNotSupportedError
           ''Predicted probabilities not supplied. The weak segment checks relies on cross entropy error that requires predicted probabilities, rather than only predicted classes.''),
    ([EvRaiseIfTokenClassificationTask, EvRaiseIfMultiLabelTask, EvGetDataByKind, EvSample,
      EvGetRelevantDataTable, EvTargetEncode, EvModelPredict], 0))"
proof -
  let ?ctx = "ex_context (ex_model False) TEXT_CLASSIFICATION False"
  have h1: "score_per_sample (ex_check None 10 :: rat weak_segments_check) = None"
    by (simp add: ex_check_def init_check_def)
  have h2: "task_type ?ctx = TEXT_CLASSIFICATION"
    by (simp add: ex_context_def)
  have h3: "model ?ctx = Inr (ex_model False)"
    by (simp add: ex_context_def)
  have h4: "predict_proba (ex_model False) = None"
    by (simp add: ex_model_def)
  have h5: "prepare ex_collaborators (ex_check None 10) ?ctx TRAIN ([], 0) =
    (Inr (ex_text_data, ex_table, [''language''],
         \<lparr> ed_data = ex_table, ed_label_col = [CNum 1, CNum 0],
           ed_features = [''language'', ''length''] \<rparr>),
    ([EvRaiseIfTokenClassificationTask, EvRaiseIfMultiLabelTask, EvGetDataByKind, EvSample,
      EvGetRelevantDataTable, EvTargetEncode], 0))"
    by (simp add: ex_prepare)
  from no_predict_proba_is_not_supported [OF h1 h2 h3 h4 h5]
  show ?thesis
    by (simp add: ex_model_def)
qed

text \<open>
  C8. The claim that a run on another task type always fails with the not-supported
  error fails where \<open>predict\<close> raises: the check calls \<open>predict\<close> before it looks at the
  task type. On the example data, with a task type other than text classification and a
  model whose \<open>predict\<close> raises a ValueError, the run fails with that ValueError.
\<close>

theorem other_task_type_predict_error_is_raised:
  "score_per_sample (ex_check None 10 :: rat weak_segments_check) = None \<and>
   task_type (ex_context ex_failing_model (OTHER_TASK ''OTHER'') False) =
     OTHER_TASK ''OTHER'' \<and>
   run_logic ex_collaborators (ex_check None 10)
     (ex_context ex_failing_model (OTHER_TASK ''OTHER'') False) TRAIN ([], 0) =
   (Inl (ValueError ''bad input''),
    ([EvRaiseIfTokenClassificationTask, EvRaiseIfMultiLabelTask, EvGetDataByKind, EvSample,
      EvGetRelevantDataTable, EvTargetEncode, EvModelPredict], 0))"
  by (simp add: run_logic_def prepare_def scoring_def exec_simps ex_ws_defs
        ex_failing_model_def)

text \<open>
  C8, amended. With no per-sample score array and a task type other than text
  classification, every run fails and never calls the segment search. A run whose
  preparation has returned calls \<open>predict\<close> on the sampled data and nothing after it: it
  fails with the error of \<open>predict\<close> if that call raises, and otherwise with the
  not-supported error that names the task type.
\<close>

theorem other_task_type_is_not_supported:
  assumes "score_per_sample self = None" and "task_type ctx \<noteq> TEXT_CLASSIFICATION"
  shows "(\<exists>e. fst (run_logic env self ctx kind (tr, g)) = Inl e)
         \<and> (\<exists>new. fst (snd (run_logic env self ctx kind (tr, g))) = tr @ new \<and>
                   EvWeakSegmentsSearch \<notin> set new)
         \<and> (\<forall>m td features cats enc tr1 g1.
               model ctx = Inr m \<longrightarrow>
               prepare env self ctx kind (tr, g) = (Inr (td, features, cats, enc), (tr1, g1)) \<longrightarrow>
               run_logic env self ctx kind (tr, g) =
                 (case predict m td g1 of
                    (Inl e, g2) \<Rightarrow> (Inl e, (tr1 @ [EvModelPredict], g2))
                  | (Inr predictions, g2) \<Rightarrow>
                      (Inl (DeepchecksNotSupportedError
                              (''Weak segments performance check is not supported for '' @
                               str_task_type env (task_type ctx) @ ''.'')),
                       (tr1 @ [EvModelPredict], g2))))"
proof (intro conjI allI impI)
  show "\<exists>e. fst (run_logic env self ctx kind (tr, g)) = Inl e"
    by (rule run_logic_fails_if_scoring_fails) (rule scoring_other_task_fails[OF assms])
next
  have "emits (run_logic env self ctx kind) (prepare_events \<union> {EvModelPredict})"
    by (rule emits_run_logic_scoring_fails)
       (rule scoring_other_task_emits[OF assms], rule scoring_other_task_fails[OF assms])
  then obtain new where "fst (snd (run_logic env self ctx kind (tr, g))) = tr @ new"
    "set new \<subseteq> prepare_events \<union> {EvModelPredict}"
    unfolding emits_def by blast
  moreover from this have "EvWeakSegmentsSearch \<notin> set new"
    by (auto simp: prepare_events_def)
  ultimately show "\<exists>new. fst (snd (run_logic env self ctx kind (tr, g))) = tr @ new \<and>
                   EvWeakSegmentsSearch \<notin> set new" by blast
next
  fix m td features cats enc tr1 g1
  assume m: "model ctx = Inr m"
    and p: "prepare env self ctx kind (tr, g) = (Inr (td, features, cats, enc), (tr1, g1))"
  show "run_logic env self ctx kind (tr, g) =
                 (case predict m td g1 of
                    (Inl e, g2) \<Rightarrow> (Inl e, (tr1 @ [EvModelPredict], g2))
                  | (Inr predictions, g2) \<Rightarrow>
                      (Inl (DeepchecksNotSupportedError
                              (''Weak segments performance check is not supported for '' @
                               str_task_type env (task_type ctx) @ ''.'')),
                       (tr1 @ [EvModelPredict], g2)))"
    by (simp add: run_logic_other_task_after_prepare[OF assms m p] task_not_supported_msg_def
          split: prod.splits sum.splits)
qed

theorem other_task_type_is_not_supported_witness:
  "run_logic ex_collaborators (ex_check None 10)
     (ex_context (ex_model True) (OTHER_TASK ''OTHER'') False) TRAIN ([], 0) =
   (Inl (DeepchecksNotSupportedError
           ''Weak segments performance check is not supported for TaskType.OTHER.''),
    ([EvRaiseIfTokenClassificationTask, EvRaiseIfMultiLabelTask, EvGetDataByKind, EvSample,
      EvGetRelevantDataTable, EvTargetEncode, EvModelPredict], 0))"
proof -
  let ?ctx = "ex_context (ex_model True) (OTHER_TASK ''OTHER'') False"
  have h1: "score_per_sample (ex_check None 10 :: rat weak_segments_check) = None"
    by (simp add: ex_check_def init_check_def)
  have h2: "task_type ?ctx \<noteq> TEXT_CLASSIFICATION"
    by (simp add: ex_context_def)
  have h3: "model ?ctx = Inr (ex_model True)"
    by (simp add: ex_context_def)
  have h5: "prepare ex_collaborators (ex_check None 10) ?ctx TRAIN ([], 0) =
    (Inr (ex_text_data, ex_table, [''language''],
         \<lparr> ed_data = ex_table, ed_label_col = [CNum 1, CNum 0],
           ed_features = [''language'', ''length''] \<rparr>),
    ([EvRaiseIfTokenClassificationTask, EvRaiseIfMultiLabelTask, EvGetDataByKind, EvSample,
      EvGetRelevantDataTable, EvTargetEncode], 0))"
    by (simp add: ex_prepare)
  from other_task_type_is_not_supported [OF h1 h2, THEN conjunct2, THEN conjunct2,
      rule_format, OF h3 h5]
  show ?thesis
    by (simp add: ex_model_def ex_text_data_def ex_context_def ex_collaborators_def
          with_spec_search_def ex_base_def ex_str_task_type_def)
qed




text \<open>
  C4. With the segment search and the result formatter of the spec in place, every
  segment in the value of a run that returns has a size of at least
  \<open>segment_minimum_size_ratio\<close> times the number of rows of the encoded table the search
  was run on.
\<close>

theorem reported_segments_meet_minimum_size:
  assumes "run_logic (with_spec_search leaves similar decode env) self ctx kind s = (Inr r, s')"
  shows "\<exists>text_data features cats enc s1.
           prepare (with_spec_search leaves similar decode env) self ctx kind s =
             (Inr (text_data, features, cats, enc), s1) \<and>
           (\<forall>seg \<in> set (rv_weak_segments (cr_value r)).
              segment_minimum_size_ratio self * of_nat (length (df_index (ed_data enc)))
                \<le> of_nat (seg_size seg))"
proof -
  let ?env = "with_spec_search leaves similar decode env"
  from run_logic_InrD[OF assms] obtain td features cats enc s1 sps sc dm avg s2 where
    p: "prepare ?env self ctx kind s = (Inr (td, features, cats, enc), s1)" and
    sr: "search_and_report ?env self ctx cats enc sps sc dm avg s2 = (Inr r, s')"
    by blast
  have "\<forall>seg \<in> set (rv_weak_segments (cr_value r)).
              segment_minimum_size_ratio self * of_nat (length (df_index (ed_data enc)))
                \<le> of_nat (seg_size seg)"
    using search_and_report_spec_sizes[OF sr] by blast
  with p show ?thesis by blast
qed

theorem reported_segments_meet_minimum_size_witness:
  "segment_minimum_size_ratio (ex_check None 10 :: rat weak_segments_check) *
     of_nat (length (df_index ex_table))
   \<le> of_nat (seg_size \<lparr> seg_predicates = [(''length'', ''row'')], seg_indices = [0],
                         seg_score = - 1 / 2 \<rparr>)"
proof -
  let ?self = "ex_check None 10 :: rat weak_segments_check"
  let ?ctx = "ex_context (ex_model True) TEXT_CLASSIFICATION False"
  let ?seg = "\<lparr> seg_predicates = [(''length'', ''row'')], seg_indices = [0],
                 seg_score = - 1 / 2 \<rparr>"
  let ?r = "projr (fst (run_logic ex_collaborators ?self ?ctx TRAIN ([], 0)))"
  have run: "run_logic ex_collaborators ?self ?ctx TRAIN ([], 0) =
               (Inr ?r, snd (run_logic ex_collaborators ?self ?ctx TRAIN ([], 0)))"
    by (simp add: ex_model_run)
  have mem: "?seg \<in> set (rv_weak_segments (cr_value ?r))"
    by (simp add: ex_model_run)
  from reported_segments_meet_minimum_size
         [of ex_leaves "\<lambda>a b. False" "\<lambda>cats preds. preds" ex_base,
          folded ex_collaborators_def, OF run]
  obtain text_data features cats enc s1 where
    p: "prepare ex_collaborators ?self ?ctx TRAIN ([], 0) =
          (Inr (text_data, features, cats, enc), s1)" and
    b: "\<forall>seg \<in> set (rv_weak_segments (cr_value ?r)).
          segment_minimum_size_ratio ?self * of_nat (length (df_index (ed_data enc)))
            \<le> of_nat (seg_size seg)"
    by blast
  from p have e: "ed_data enc = ex_table" by (auto simp: ex_prepare)
  from bspec[OF b mem] show ?thesis unfolding e .
qed







text \<open>
  C10. When \<open>run\<close> is given both \<open>y_proba_train\<close> and \<open>y_proba\<close>, and neither
  \<open>y_pred_train\<close> nor \<open>y_pred\<close>, the guards of lines 83 to 106 raise no value error: the
  only errors they can raise are the two not-supported errors on the kind of dataset,
  which do not look at the prediction arguments. When these two guards pass, the
  warnings are the deprecation warning on \<open>y_proba_train\<close>, followed by those on
  \<open>y_pred_test\<close> and \<open>y_proba_test\<close> if given, and the probabilities kept are the
  supplied \<open>y_proba_train\<close>; on a dataset that is not a recommendation dataset they are
  what the context receives.
\<close>

theorem both_proba_arguments_are_accepted:
  assumes "arg_y_proba_train a = Some p" and "arg_y_proba a = Some q"
    and "arg_y_pred_train a = None" and "arg_y_pred a = None"
  shows "validate_run_args label_type a =
           (if label_type (arg_dataset a) \<noteq> RECOMMENDETION \<and> arg_item_dataset a \<noteq> None then
              ([], Inl (DeepchecksNotSupportedError
                          ''item_dataset is not supported for tabular datasets.''))
            else if label_type (arg_dataset a) = RECOMMENDETION \<and> arg_model_classes a \<noteq> None
            then
              ([], Inl (DeepchecksNotSupportedError
                          ''model_classes is not supported for recommendation datasets.''))
            else
              ([DeprecationWarning ''y_proba_train is deprecated, please use y_proba instead.''] @
               (if arg_y_pred_test a \<noteq> None
                then [DeprecationWarning ''y_pred_test is deprecated and ignored.''] else []) @
               (if arg_y_proba_test a \<noteq> None
                then [DeprecationWarning ''y_proba_test is deprecated and ignored.''] else []),
               Inr (None, Some p)))
       \<and> (label_type (arg_dataset a) \<noteq> RECOMMENDETION \<longrightarrow> arg_item_dataset a = None \<longrightarrow>
            single_dataset_run label_type make_context run_logic_of finalize_check_result
              context_type a =
              ([DeprecationWarning ''y_proba_train is deprecated, please use y_proba instead.''] @
               (if arg_y_pred_test a \<noteq> None
                then [DeprecationWarning ''y_pred_test is deprecated and ignored.''] else []) @
               (if arg_y_proba_test a \<noteq> None
                then [DeprecationWarning ''y_proba_test is deprecated and ignored.''] else []),
               Some (case context_type of Some c \<Rightarrow> c | None \<Rightarrow> TabularContext),
               (case make_context (case context_type of Some c \<Rightarrow> c | None \<Rightarrow> TabularContext)
                       \<lparr> kw_train = arg_dataset a, kw_model = Some (arg_model a),
                         kw_item_dataset = None, kw_interaction_dataset = None,
                         kw_feature_importance = arg_feature_importance a,
                         kw_feature_importance_force_permutation =
                           arg_feature_importance_force_permutation a,
                         kw_feature_importance_timeout = arg_feature_importance_timeout a,
                         kw_with_display = arg_with_display a,
                         kw_y_pred_train = None,
                         kw_y_proba_train = Some (Some p),
                         kw_model_classes = Some (arg_model_classes a) \<rparr> of
                  Inl e \<Rightarrow> Inl e
                | Inr ctx \<Rightarrow>
                    (case run_logic_of ctx TRAIN of
                       Inl e \<Rightarrow> Inl e
                     | Inr result \<Rightarrow>
                         (case finalize_check_result ctx result TRAIN of
                            Inl e \<Rightarrow> Inl e
                          | Inr u \<Rightarrow> Inr result)))))"
proof (intro conjI impI)
  show v: "validate_run_args label_type a =
           (if label_type (arg_dataset a) \<noteq> RECOMMENDETION \<and> arg_item_dataset a \<noteq> None then
              ([], Inl (DeepchecksNotSupportedError
                          ''item_dataset is not supported for tabular datasets.''))
            else if label_type (arg_dataset a) = RECOMMENDETION \<and> arg_model_classes a \<noteq> None
            then
              ([], Inl (DeepchecksNotSupportedError
                          ''model_classes is not supported for recommendation datasets.''))
            else
              ([DeprecationWarning ''y_proba_train is deprecated, please use y_proba instead.''] @
               (if arg_y_pred_test a \<noteq> None
                then [DeprecationWarning ''y_pred_test is deprecated and ignored.''] else []) @
               (if arg_y_proba_test a \<noteq> None
                then [DeprecationWarning ''y_proba_test is deprecated and ignored.''] else []),
               Inr (None, Some p)))"
    by (auto simp: validate_run_args_def or_else_def Let_def assms)
  assume t: "label_type (arg_dataset a) \<noteq> RECOMMENDETION" and i: "arg_item_dataset a = None"
  show "single_dataset_run label_type make_context run_logic_of finalize_check_result
              context_type a =
              ([DeprecationWarning ''y_proba_train is deprecated, please use y_proba instead.''] @
               (if arg_y_pred_test a \<noteq> None
                then [DeprecationWarning ''y_pred_test is deprecated and ignored.''] else []) @
               (if arg_y_proba_test a \<noteq> None
                then [DeprecationWarning ''y_proba_test is deprecated and ignored.''] else []),
               Some (case context_type of Some c \<Rightarrow> c | None \<Rightarrow> TabularContext),
               (case make_context (case context_type of Some c \<Rightarrow> c | None \<Rightarrow> TabularContext)
                       \<lparr> kw_train = arg_dataset a, kw_model = Some (arg_model a),
                         kw_item_dataset = None, kw_interaction_dataset = None,
                         kw_feature_importance = arg_feature_importance a,
                         kw_feature_importance_force_permutation =
                           arg_feature_importance_force_permutation a,
                         kw_feature_importance_timeout = arg_feature_importance_timeout a,
                         kw_with_display = arg_with_display a,
                         kw_y_pred_train = None,
                         kw_y_proba_train = Some (Some p),
                         kw_model_classes = Some (arg_model_classes a) \<rparr> of
                  Inl e \<Rightarrow> Inl e
                | Inr ctx \<Rightarrow>
                    (case run_logic_of ctx TRAIN of
                       Inl e \<Rightarrow> Inl e
                     | Inr result \<Rightarrow>
                         (case finalize_check_result ctx result TRAIN of
                            Inl e \<Rightarrow> Inl e
                          | Inr u \<Rightarrow> Inr result))))"
    by (simp add: single_dataset_run_def v t i Let_def)
qed

theorem both_proba_arguments_are_accepted_witness:
  "validate_run_args (\<lambda>d. TABULAR_TASK ''binary'') ex_run_args =
     ([DeprecationWarning ''y_proba_train is deprecated, please use y_proba instead.''],
      Inr (None, Some [1 / 2, 1 / 2])) \<and>
   ex_run =
     ([DeprecationWarning ''y_proba_train is deprecated, please use y_proba instead.''],
      Some TabularContext, Inr (Some (Some [1 / 2, 1 / 2])))"
proof -
  have h1: "arg_y_proba_train ex_run_args = Some [1 / 2, 1 / 2]"
    and h2: "arg_y_proba ex_run_args = Some [1 / 4, 3 / 4]"
    and h3: "arg_y_pred_train ex_run_args = None"
    and h4: "arg_y_pred ex_run_args = None"
    by (simp_all add: ex_run_args_def)
  have t: "(\<lambda>d. TABULAR_TASK ''binary'') (arg_dataset ex_run_args) \<noteq> RECOMMENDETION"
    by simp
  have i: "arg_item_dataset ex_run_args = None"
    by (simp add: ex_run_args_def)
  note inst = both_proba_arguments_are_accepted [OF h1 h2 h3 h4,
      of "\<lambda>d. TABULAR_TASK ''binary''"]
  from inst [THEN conjunct1]
  have a: "validate_run_args (\<lambda>d. TABULAR_TASK ''binary'') ex_run_args =
     ([DeprecationWarning ''y_proba_train is deprecated, please use y_proba instead.''],
      Inr (None, Some [1 / 2, 1 / 2]))"
    by (simp add: ex_run_args_def)
  from inst [THEN conjunct2, rule_format, OF t i, of "\<lambda>cls kw. Inr kw"
      "\<lambda>ctx kind. Inr (kw_y_proba_train ctx)" "\<lambda>ctx r kind. Inr ()" None]
  have b: "ex_run =
     ([DeprecationWarning ''y_proba_train is deprecated, please use y_proba instead.''],
      Some TabularContext, Inr (Some (Some [1 / 2, 1 / 2])))"
    unfolding ex_run_def by (simp add: ex_run_args_def)
  from a b show ?thesis by simp
qed
end
